theory Spec2Isabelle
  imports Main "HOL-Library.Word" "HOL-Library.AList"
begin

section \<open>The graph-ts runtime: values, entities, the entity store, the log\<close>

text \<open>
  The handlers of \<^verbatim>\<open>src/unnamed/part_000\<close> (the ENS governance mapping) run inside the
  hosted indexing runtime. An entity of graph-ts is a typed map from field names to values
  with an id; the store keeps, per entity type, the saved fields of every id. BigInt is
  an unbounded integer (\<open>int\<close>), an i32 is a \<open>32 word\<close>, an address is represented by
  its hex string.
\<close>

datatype BigDecimal = BigDecimal int int

datatype Value =
    VString string
  | VInt "32 word"
  | VBigInt int
  | VBigDecimal BigDecimal
  | VStrings "string list"
  | VBigInts "int list"
  | VNull

record Entity =
  entity_id :: string
  entity_fields :: "(string \<times> Value) list"

type_synonym Table = "(string \<times> (string \<times> Value) list) list"

datatype LogEntry = LogError string "string list"

datatype Fault = NullDereference "LogEntry list"

record State =
  tokenHolderTable :: Table
  delegateTable :: Table
  proposalTable :: Table
  voteTable :: Table
  governanceTable :: Table
  logs :: "LogEntry list"

definition emptyState :: State where
  "emptyState = \<lparr>tokenHolderTable = [], delegateTable = [], proposalTable = [],
     voteTable = [], governanceTable = [], logs = []\<rparr>"

text \<open>The \<^verbatim>\<open>Entity\<close> base class of graph-ts: an entity that carries its id and no field.
  The constructors of the entity types build on it.\<close>

definition bareEntity :: "string \<Rightarrow> Entity" where
  "bareEntity i = \<lparr>entity_id = i, entity_fields = []\<rparr>"

text \<open>\<^verbatim>\<open>TypedMap.set\<close> and \<^verbatim>\<open>TypedMap.get\<close>: replace the entry of the key or add one; look
  the key up.\<close>

definition setField :: "string \<Rightarrow> Value \<Rightarrow> Entity \<Rightarrow> Entity" where
  "setField k v e = e\<lparr>entity_fields := AList.update k v (entity_fields e)\<rparr>"

definition getField :: "Entity \<Rightarrow> string \<Rightarrow> Value option" where
  "getField e k = map_of (entity_fields e) k"

text \<open>
  Modelled from the spec: the generated schema classes (\<^verbatim>\<open>../generated/schema\<close>) are not
  under src/. The spec's entity store creates an entity "with default field values": a
  getter of a field that was never set reads the default of its type (zero, the empty
  string), a nullable getter reads null.
\<close>

definition getBigInt :: "Entity \<Rightarrow> string \<Rightarrow> int" where
  "getBigInt e k = (case getField e k of Some (VBigInt n) \<Rightarrow> n | _ \<Rightarrow> 0)"

definition getI32 :: "Entity \<Rightarrow> string \<Rightarrow> 32 word" where
  "getI32 e k = (case getField e k of Some (VInt n) \<Rightarrow> n | _ \<Rightarrow> 0)"

definition getString :: "Entity \<Rightarrow> string \<Rightarrow> string" where
  "getString e k = (case getField e k of Some (VString x) \<Rightarrow> x | _ \<Rightarrow> [])"

definition getNullableString :: "Entity \<Rightarrow> string \<Rightarrow> string option" where
  "getNullableString e k = (case getField e k of Some (VString x) \<Rightarrow> Some x | _ \<Rightarrow> None)"

definition getNullableBigInt :: "Entity \<Rightarrow> string \<Rightarrow> int option" where
  "getNullableBigInt e k = (case getField e k of Some (VBigInt n) \<Rightarrow> Some n | _ \<Rightarrow> None)"

definition setBigInt :: "string \<Rightarrow> int \<Rightarrow> Entity \<Rightarrow> Entity" where
  "setBigInt k n e = setField k (VBigInt n) e"

definition setI32 :: "string \<Rightarrow> 32 word \<Rightarrow> Entity \<Rightarrow> Entity" where
  "setI32 k n e = setField k (VInt n) e"

definition setString :: "string \<Rightarrow> string \<Rightarrow> Entity \<Rightarrow> Entity" where
  "setString k x e = setField k (VString x) e"

definition setBigDecimal :: "string \<Rightarrow> BigDecimal \<Rightarrow> Entity \<Rightarrow> Entity" where
  "setBigDecimal k d e = setField k (VBigDecimal d) e"

definition setNullableBigInt :: "string \<Rightarrow> int option \<Rightarrow> Entity \<Rightarrow> Entity" where
  "setNullableBigInt k n e = setField k (case n of None \<Rightarrow> VNull | Some x \<Rightarrow> VBigInt x) e"

text \<open>
  \<^verbatim>\<open>Entity.load\<close> and \<^verbatim>\<open>entity.save()\<close>. A load returns a copy of what the store holds; two
  loads of one id are two independent copies. A save writes the fields the saved entity
  carries over those the store holds for its id (the header of the mapping, lines 36-40:
  "Fields that were not set or unset remain unchanged"). An entity made by the constructor
  of its type carries every field of the type, so saving it replaces them all.
\<close>

definition storeGet :: "Table \<Rightarrow> string \<Rightarrow> Entity option" where
  "storeGet tbl i = map_option (\<lambda>fs. \<lparr>entity_id = i, entity_fields = fs\<rparr>) (map_of tbl i)"

definition storeSet :: "Entity \<Rightarrow> Table \<Rightarrow> Table" where
  "storeSet e tbl =
     AList.update (entity_id e)
       (case map_of tbl (entity_id e) of
          None \<Rightarrow> entity_fields e
        | Some old \<Rightarrow> AList.merge old (entity_fields e))
       tbl"

definition tableEntities :: "Table \<Rightarrow> Entity list" where
  "tableEntities tbl = map (\<lambda>(i, fs). \<lparr>entity_id = i, entity_fields = fs\<rparr>) tbl"

definition saveTokenHolder :: "Entity \<Rightarrow> State \<Rightarrow> State" where
  "saveTokenHolder e s = s\<lparr>tokenHolderTable := storeSet e (tokenHolderTable s)\<rparr>"

definition saveDelegate :: "Entity \<Rightarrow> State \<Rightarrow> State" where
  "saveDelegate e s = s\<lparr>delegateTable := storeSet e (delegateTable s)\<rparr>"

definition saveProposal :: "Entity \<Rightarrow> State \<Rightarrow> State" where
  "saveProposal e s = s\<lparr>proposalTable := storeSet e (proposalTable s)\<rparr>"

definition saveVote :: "Entity \<Rightarrow> State \<Rightarrow> State" where
  "saveVote e s = s\<lparr>voteTable := storeSet e (voteTable s)\<rparr>"

definition saveGovernance :: "Entity \<Rightarrow> State \<Rightarrow> State" where
  "saveGovernance e s = s\<lparr>governanceTable := storeSet e (governanceTable s)\<rparr>"

text \<open>\<^verbatim>\<open>log.error\<close> reports to the observability sink and returns; it does not stop the
  handler.\<close>

definition logError :: "string \<Rightarrow> string list \<Rightarrow> State \<Rightarrow> State" where
  "logError fmt args s = s\<lparr>logs := logs s @ [LogError fmt args]\<rparr>"

text \<open>\<^verbatim>\<open>BigInt.toString()\<close>: the decimal digits, with a minus sign for a negative number.\<close>

definition digitChar :: "nat \<Rightarrow> char" where
  "digitChar d =
     (if d = 0 then CHR ''0'' else if d = 1 then CHR ''1'' else if d = 2 then CHR ''2''
      else if d = 3 then CHR ''3'' else if d = 4 then CHR ''4'' else if d = 5 then CHR ''5''
      else if d = 6 then CHR ''6'' else if d = 7 then CHR ''7'' else if d = 8 then CHR ''8''
      else CHR ''9'')"

fun natToString :: "nat \<Rightarrow> string" where
  "natToString n =
     (if n < 10 then [digitChar n]
      else natToString (n div 10) @ [digitChar (n mod 10)])"

declare natToString.simps [simp del]

definition bigIntToString :: "int \<Rightarrow> string" where
  "bigIntToString i =
     (if i < 0 then CHR ''-'' # natToString (nat (- i)) else natToString (nat i))"

section \<open>The helpers of the mapping\<close>

text \<open>
  Modelled from the spec: \<^verbatim>\<open>./helpers\<close> is not under src/. Its constants are the fixed name
  of the governance singleton, the zero address, the five proposal states of the spec's
  data model, and the BigInt constants zero and one.
\<close>

definition GOVERNANCE_NAME :: string where
  "GOVERNANCE_NAME = ''Governance''"

definition ZERO_ADDRESS :: string where
  "ZERO_ADDRESS = ''0x0000000000000000000000000000000000000000''"

definition PROPOSAL_STATE_PENDING :: string where
  "PROPOSAL_STATE_PENDING = ''Pending''"

definition PROPOSAL_STATE_ACTIVE :: string where
  "PROPOSAL_STATE_ACTIVE = ''Active''"

definition PROPOSAL_STATE_CANCELED :: string where
  "PROPOSAL_STATE_CANCELED = ''Canceled''"

definition PROPOSAL_STATE_QUEUED :: string where
  "PROPOSAL_STATE_QUEUED = ''Queued''"

definition PROPOSAL_STATE_EXECUTED :: string where
  "PROPOSAL_STATE_EXECUTED = ''Executed''"

definition BIGINT_ZERO :: int where
  "BIGINT_ZERO = 0"

definition BIGINT_ONE :: int where
  "BIGINT_ONE = 1"

text \<open>
  Modelled from the spec: \<^verbatim>\<open>toDecimal\<close> is missing; the spec derives every decimal from its
  raw integer "using a fixed scaling factor (18 decimal places)". A BigDecimal is kept as
  its digits and its exponent of ten.
\<close>

definition toDecimal :: "int \<Rightarrow> BigDecimal" where
  "toDecimal v = BigDecimal v (- 18)"

text \<open>
  Modelled from the spec: \<^verbatim>\<open>addressesToHexStrings\<close> is missing; an address is already its
  hex string here.
\<close>

definition addressesToHexStrings :: "string list \<Rightarrow> string list" where
  "addressesToHexStrings xs = xs"

text \<open>
  Modelled from the spec: \<^verbatim>\<open>getVoteChoiceByValue\<close> is missing. The mapping's comment gives
  "0 = Against, 1 = For, 2 = Abstain"; for any other code the spec says the Vote record is
  created "with that literal code stored".
\<close>

definition getVoteChoiceByValue :: "8 word \<Rightarrow> string" where
  "getVoteChoiceByValue c =
     (if c = 0 then ''Against'' else if c = 1 then ''For''
      else if c = 2 then ''Abstain'' else natToString (unat c))"

text \<open>
  Modelled from the spec: the generated schema classes (\<^verbatim>\<open>../generated/schema\<close>) are not
  under src/. The spec's store creates "a new entity with default field values", and a
  record constructed afresh and saved leaves the other fields of a pre-existing entity
  "reset to defaults": the constructor of a type sets the fields of the spec's data model
  to the default of their type (zero for a number, the empty string, the empty sequence);
  a reference, an enum and a nullable field have no value until one is assigned.
\<close>

definition createGovernance :: "string \<Rightarrow> Entity" where
  "createGovernance i =
     setBigInt ''proposals'' BIGINT_ZERO
       (setBigInt ''proposalsCanceled'' BIGINT_ZERO
         (setBigInt ''proposalsQueued'' BIGINT_ZERO
           (setBigInt ''proposalsExecuted'' BIGINT_ZERO
             (setBigInt ''currentDelegates'' BIGINT_ZERO
               (setBigInt ''currentTokenHolders'' BIGINT_ZERO
                 (setBigInt ''delegatedVotesRaw'' BIGINT_ZERO
                   (setBigDecimal ''delegatedVotes'' (toDecimal BIGINT_ZERO)
                     (setBigInt ''quorumNumerator'' BIGINT_ZERO
                       (bareEntity i)))))))))"

definition createTokenHolder :: "string \<Rightarrow> Entity" where
  "createTokenHolder a =
     setBigInt ''tokenBalanceRaw'' BIGINT_ZERO
       (setBigDecimal ''tokenBalance'' (toDecimal BIGINT_ZERO)
         (setBigInt ''totalTokensHeldRaw'' BIGINT_ZERO
           (setBigDecimal ''totalTokensHeld'' (toDecimal BIGINT_ZERO)
             (bareEntity a))))"

definition createDelegate :: "string \<Rightarrow> Entity" where
  "createDelegate a =
     setBigInt ''delegatedVotesRaw'' BIGINT_ZERO
       (setBigDecimal ''delegatedVotes'' (toDecimal BIGINT_ZERO)
         (setI32 ''tokenHoldersRepresentedAmount'' 0
           (setI32 ''numberVotes'' 0
             (bareEntity a))))"

definition createProposal :: "string \<Rightarrow> Entity" where
  "createProposal i =
     setBigInt ''againstVotes'' BIGINT_ZERO
       (setBigInt ''forVotes'' BIGINT_ZERO
         (setBigInt ''abstainVotes'' BIGINT_ZERO
           (setField ''targets'' (VStrings [])
             (setField ''values'' (VBigInts [])
               (setField ''signatures'' (VStrings [])
                 (setField ''calldatas'' (VStrings [])
                   (setString ''description'' []
                     (setBigInt ''creationBlock'' BIGINT_ZERO
                       (setBigInt ''creationTime'' BIGINT_ZERO
                         (setBigInt ''startBlock'' BIGINT_ZERO
                           (setBigInt ''endBlock'' BIGINT_ZERO
                             (setBigInt ''executionBlock'' BIGINT_ZERO
                               (setBigInt ''executionTime'' BIGINT_ZERO
                                 (setBigInt ''cancellationBlock'' BIGINT_ZERO
                                   (setBigInt ''cancellationTime'' BIGINT_ZERO
                                     (bareEntity i))))))))))))))))"

definition createVote :: "string \<Rightarrow> Entity" where
  "createVote i =
     setBigInt ''weight'' BIGINT_ZERO
       (setString ''reason'' []
         (bareEntity i))"

text \<open>
  Modelled from the spec: \<^verbatim>\<open>getGovernance\<close>, \<^verbatim>\<open>getTokenHolder\<close>, \<^verbatim>\<open>getProposal\<close> and
  \<^verbatim>\<open>getDelegate\<close> are missing. The spec: "all entities are created lazily on first
  reference (get-or-create)", and "Get-or-create is a standard composite" of load and
  create, materialising "a zero-valued entity". The result of \<^verbatim>\<open>getDelegate\<close> is typed as
  a nullable reference, since \<^verbatim>\<open>handleProposalCreated\<close> compares it with null.
\<close>

definition getGovernance :: "State \<Rightarrow> Entity" where
  "getGovernance s =
     (case storeGet (governanceTable s) GOVERNANCE_NAME of
        Some g \<Rightarrow> g
      | None \<Rightarrow> createGovernance GOVERNANCE_NAME)"

definition getTokenHolder :: "State \<Rightarrow> string \<Rightarrow> Entity" where
  "getTokenHolder s a =
     (case storeGet (tokenHolderTable s) a of
        Some h \<Rightarrow> h
      | None \<Rightarrow> createTokenHolder a)"

definition getDelegate :: "State \<Rightarrow> string \<Rightarrow> Entity option" where
  "getDelegate s a =
     (case storeGet (delegateTable s) a of
        Some d \<Rightarrow> Some d
      | None \<Rightarrow> Some (createDelegate a))"

definition getProposal :: "State \<Rightarrow> string \<Rightarrow> Entity" where
  "getProposal s i =
     (case storeGet (proposalTable s) i of
        Some p \<Rightarrow> p
      | None \<Rightarrow> createProposal i)"

section \<open>The events\<close>

record EthereumEvent =
  blockNumber :: int
  blockTimestamp :: int
  transactionHash :: string

record ProposalCanceled = EthereumEvent +
  canceled_proposalId :: int

record ProposalCreated = EthereumEvent +
  created_proposalId :: int
  created_proposer :: string
  created_targets :: "string list"
  created_values :: "int list"
  created_signatures :: "string list"
  created_calldatas :: "string list"
  created_startBlock :: int
  created_endBlock :: int
  created_description :: string

record ProposalExecuted = EthereumEvent +
  executed_proposalId :: int

record ProposalQueued = EthereumEvent +
  queued_proposalId :: int
  queued_eta :: int

record QuorumNumeratorUpdated = EthereumEvent +
  oldQuorumNumerator :: int
  newQuorumNumerator :: int

record VoteCast = EthereumEvent +
  vote_voter :: string
  vote_proposalId :: int
  vote_support :: "8 word"
  vote_weight :: int
  vote_reason :: string

record DelegateChanged = EthereumEvent +
  changed_delegator :: string
  changed_fromDelegate :: string
  changed_toDelegate :: string

record DelegateVotesChanged = EthereumEvent +
  votes_delegate :: string
  votes_previousBalance :: int
  votes_newBalance :: int

record Transfer = EthereumEvent +
  transfer_from :: string
  transfer_to :: string
  transfer_value :: int

section \<open>The fields the handlers read\<close>

abbreviation tokenBalanceRaw :: "Entity \<Rightarrow> int" where
  "tokenBalanceRaw e \<equiv> getBigInt e ''tokenBalanceRaw''"

abbreviation totalTokensHeldRaw :: "Entity \<Rightarrow> int" where
  "totalTokensHeldRaw e \<equiv> getBigInt e ''totalTokensHeldRaw''"

abbreviation delegatedVotesRaw :: "Entity \<Rightarrow> int" where
  "delegatedVotesRaw e \<equiv> getBigInt e ''delegatedVotesRaw''"

abbreviation tokenHoldersRepresentedAmount :: "Entity \<Rightarrow> 32 word" where
  "tokenHoldersRepresentedAmount e \<equiv> getI32 e ''tokenHoldersRepresentedAmount''"

abbreviation numberVotes :: "Entity \<Rightarrow> 32 word" where
  "numberVotes e \<equiv> getI32 e ''numberVotes''"

abbreviation proposalProposer :: "Entity \<Rightarrow> string option" where
  "proposalProposer e \<equiv> getNullableString e ''proposer''"

abbreviation startBlock :: "Entity \<Rightarrow> int" where
  "startBlock e \<equiv> getBigInt e ''startBlock''"

abbreviation proposalState :: "Entity \<Rightarrow> string" where
  "proposalState e \<equiv> getString e ''state''"

abbreviation executionETA :: "Entity \<Rightarrow> int option" where
  "executionETA e \<equiv> getNullableBigInt e ''executionETA''"

abbreviation againstVotes :: "Entity \<Rightarrow> int" where
  "againstVotes e \<equiv> getBigInt e ''againstVotes''"

abbreviation forVotes :: "Entity \<Rightarrow> int" where
  "forVotes e \<equiv> getBigInt e ''forVotes''"

abbreviation abstainVotes :: "Entity \<Rightarrow> int" where
  "abstainVotes e \<equiv> getBigInt e ''abstainVotes''"

abbreviation choice :: "Entity \<Rightarrow> string" where
  "choice e \<equiv> getString e ''choice''"

abbreviation proposals :: "Entity \<Rightarrow> int" where
  "proposals e \<equiv> getBigInt e ''proposals''"

abbreviation proposalsCanceled :: "Entity \<Rightarrow> int" where
  "proposalsCanceled e \<equiv> getBigInt e ''proposalsCanceled''"

abbreviation proposalsQueued :: "Entity \<Rightarrow> int" where
  "proposalsQueued e \<equiv> getBigInt e ''proposalsQueued''"

abbreviation proposalsExecuted :: "Entity \<Rightarrow> int" where
  "proposalsExecuted e \<equiv> getBigInt e ''proposalsExecuted''"

abbreviation currentDelegates :: "Entity \<Rightarrow> int" where
  "currentDelegates e \<equiv> getBigInt e ''currentDelegates''"

abbreviation currentTokenHolders :: "Entity \<Rightarrow> int" where
  "currentTokenHolders e \<equiv> getBigInt e ''currentTokenHolders''"

section \<open>The handlers of the governance mapping\<close>

text \<open>
  Each handler takes the event and the state of the store and the log, and returns the
  state it leaves. The locals of the source are the \<open>let\<close>-bound names; an assignment
  to a property rebinds the local to the updated entity. Reading a property of a null
  reference aborts the handler: the two handlers that dereference the result of
  \<^verbatim>\<open>getDelegate\<close> return \<open>Fault + State\<close>.
\<close>

definition handleProposalCanceled :: "ProposalCanceled \<Rightarrow> State \<Rightarrow> State" where
  "handleProposalCanceled event s =
     (let proposal = getProposal s (bigIntToString (canceled_proposalId event));
          proposal = setString ''state'' PROPOSAL_STATE_CANCELED proposal;
          proposal = setBigInt ''cancellationBlock'' (blockNumber event) proposal;
          proposal = setBigInt ''cancellationTime'' (blockTimestamp event) proposal;
          s = saveProposal proposal s;
          governance = getGovernance s;
          governance =
            setBigInt ''proposalsCanceled'' (proposalsCanceled governance + BIGINT_ONE) governance
      in saveGovernance governance s)"

text \<open>Lines 97-128 of \<^verbatim>\<open>handleProposalCreated\<close>, after its two loads.\<close>

definition proposalCreated ::
  "Entity \<Rightarrow> Entity option \<Rightarrow> ProposalCreated \<Rightarrow> State \<Rightarrow> Fault + State" where
  "proposalCreated proposal proposer event s =
     (let s = (if proposer = None
               then logError ''Delegate participant {} not found on ProposalCreated. tx_hash: {}''
                      [created_proposer event, transactionHash event] s
               else s)
      in case proposer of
           None \<Rightarrow> Inl (NullDereference (logs s))
         | Some proposer \<Rightarrow>
             (let proposal = setString ''proposer'' (entity_id proposer) proposal;
                  proposal = setField ''targets''
                    (VStrings (addressesToHexStrings (created_targets event))) proposal;
                  proposal = setField ''values'' (VBigInts (created_values event)) proposal;
                  proposal = setField ''signatures'' (VStrings (created_signatures event)) proposal;
                  proposal = setField ''calldatas'' (VStrings (created_calldatas event)) proposal;
                  proposal = setBigInt ''creationBlock'' (blockNumber event) proposal;
                  proposal = setBigInt ''creationTime'' (blockTimestamp event) proposal;
                  proposal = setBigInt ''startBlock'' (created_startBlock event) proposal;
                  proposal = setBigInt ''endBlock'' (created_endBlock event) proposal;
                  proposal = setString ''description'' (created_description event) proposal;
                  proposal = setString ''state''
                    (if blockNumber event \<ge> startBlock proposal
                     then PROPOSAL_STATE_ACTIVE else PROPOSAL_STATE_PENDING) proposal;
                  s = saveProposal proposal s;
                  governance = getGovernance s;
                  governance = setBigInt ''proposals'' (proposals governance + BIGINT_ONE) governance
              in Inr (saveGovernance governance s)))"

definition handleProposalCreated :: "ProposalCreated \<Rightarrow> State \<Rightarrow> Fault + State" where
  "handleProposalCreated event s =
     (let proposal = getProposal s (bigIntToString (created_proposalId event));
          proposer = getDelegate s (created_proposer event)
      in proposalCreated proposal proposer event s)"

definition handleProposalExecuted :: "ProposalExecuted \<Rightarrow> State \<Rightarrow> State" where
  "handleProposalExecuted event s =
     (let proposal = getProposal s (bigIntToString (executed_proposalId event));
          proposal = setString ''state'' PROPOSAL_STATE_EXECUTED proposal;
          proposal = setNullableBigInt ''executionETA'' None proposal;
          proposal = setBigInt ''executionBlock'' (blockNumber event) proposal;
          proposal = setBigInt ''executionTime'' (blockTimestamp event) proposal;
          s = saveProposal proposal s;
          governance = getGovernance s;
          governance =
            setBigInt ''proposalsQueued'' (proposalsQueued governance - BIGINT_ONE) governance;
          governance =
            setBigInt ''proposalsExecuted'' (proposalsExecuted governance + BIGINT_ONE) governance
      in saveGovernance governance s)"

definition handleProposalQueued :: "ProposalQueued \<Rightarrow> State \<Rightarrow> State" where
  "handleProposalQueued event s =
     (let proposal = getProposal s (bigIntToString (queued_proposalId event));
          proposal = setString ''state'' PROPOSAL_STATE_QUEUED proposal;
          proposal = setNullableBigInt ''executionETA'' (Some (queued_eta event)) proposal;
          s = saveProposal proposal s;
          governance = getGovernance s;
          governance =
            setBigInt ''proposalsQueued'' (proposalsQueued governance + BIGINT_ONE) governance
      in saveGovernance governance s)"

definition handleQuorumNumeratorUpdated :: "QuorumNumeratorUpdated \<Rightarrow> State \<Rightarrow> State" where
  "handleQuorumNumeratorUpdated event s =
     (let governance = createGovernance GOVERNANCE_NAME;
          governance = setBigInt ''quorumNumerator'' (newQuorumNumerator event) governance
      in saveGovernance governance s)"

definition handleTimelockChange :: "EthereumEvent \<Rightarrow> State \<Rightarrow> State" where
  "handleTimelockChange event s = s"

definition handleVoteCast :: "VoteCast \<Rightarrow> State \<Rightarrow> State" where
  "handleVoteCast event s =
     (let proposalId = bigIntToString (vote_proposalId event);
          voterAddress = vote_voter event;
          voteId = voterAddress @ ''-'' @ proposalId;
          vote = createVote voteId;
          vote = setString ''proposal'' proposalId vote;
          vote = setString ''voter'' voterAddress vote;
          vote = setBigInt ''weight'' (vote_weight event) vote;
          vote = setString ''reason'' (vote_reason event) vote;
          vote = setString ''choice'' (getVoteChoiceByValue (vote_support event)) vote;
          s = saveVote vote s;
          proposal = getProposal s proposalId;
          proposal = (if proposalState proposal = PROPOSAL_STATE_PENDING
                      then setString ''state'' PROPOSAL_STATE_ACTIVE proposal
                      else proposal);
          proposal =
            (if vote_support event = 0
             then setBigInt ''againstVotes'' (againstVotes proposal + BIGINT_ONE) proposal
             else if vote_support event = 1
             then setBigInt ''forVotes'' (forVotes proposal + BIGINT_ONE) proposal
             else if vote_support event = 2
             then setBigInt ''abstainVotes'' (abstainVotes proposal + BIGINT_ONE) proposal
             else proposal);
          s = saveProposal proposal s;
          voter = createDelegate voterAddress;
          voter = setI32 ''numberVotes'' (numberVotes voter + 1) voter
      in saveDelegate voter s)"

definition handleDelegateChanged :: "DelegateChanged \<Rightarrow> State \<Rightarrow> Fault + State" where
  "handleDelegateChanged event s =
     (let tokenHolder = getTokenHolder s (changed_delegator event);
          previousDelegate = getDelegate s (changed_fromDelegate event);
          newDelegate = getDelegate s (changed_toDelegate event)
      in case newDelegate of
           None \<Rightarrow> Inl (NullDereference (logs s))
         | Some newDelegate \<Rightarrow>
             (let tokenHolder = setString ''delegate'' (entity_id newDelegate) tokenHolder;
                  s = saveTokenHolder tokenHolder s
              in case previousDelegate of
                   None \<Rightarrow> Inl (NullDereference (logs s))
                 | Some previousDelegate \<Rightarrow>
                     (let previousDelegate = setI32 ''tokenHoldersRepresentedAmount''
                            (tokenHoldersRepresentedAmount previousDelegate - 1) previousDelegate;
                          s = saveDelegate previousDelegate s;
                          newDelegate = setI32 ''tokenHoldersRepresentedAmount''
                            (tokenHoldersRepresentedAmount newDelegate + 1) newDelegate
                      in Inr (saveDelegate newDelegate s))))"

definition handleDelegateVotesChanged :: "DelegateVotesChanged \<Rightarrow> State \<Rightarrow> State" where
  "handleDelegateVotesChanged event s =
     (let delegateAddress = votes_delegate event;
          previousBalance = votes_previousBalance event;
          newBalance = votes_newBalance event;
          votesDifference = newBalance - previousBalance;
          delegate = createDelegate delegateAddress;
          delegate = setBigInt ''delegatedVotesRaw'' newBalance delegate;
          delegate = setBigDecimal ''delegatedVotes'' (toDecimal newBalance) delegate;
          s = saveDelegate delegate s;
          governance = getGovernance s;
          governance =
            (if previousBalance = BIGINT_ZERO \<and> newBalance > BIGINT_ZERO
             then setBigInt ''currentDelegates'' (currentDelegates governance + BIGINT_ONE) governance
             else governance);
          governance =
            (if newBalance = BIGINT_ZERO
             then setBigInt ''currentDelegates'' (currentDelegates governance - BIGINT_ONE) governance
             else governance);
          governance =
            setBigInt ''delegatedVotesRaw'' (delegatedVotesRaw governance + votesDifference) governance;
          governance =
            setBigDecimal ''delegatedVotes'' (toDecimal (delegatedVotesRaw governance)) governance
      in saveGovernance governance s)"

text \<open>
  \<^verbatim>\<open>handleTransfer\<close>, in the two blocks of the source: lines 271-302 debit the from-holder,
  lines 305-328 credit the to-holder. Both holders and the governance singleton are loaded
  before either block runs (lines 265-267); the one governance object goes through both
  blocks.
\<close>

definition transferDebit :: "Transfer \<Rightarrow> Entity \<Rightarrow> Entity \<Rightarrow> State \<Rightarrow> Entity \<times> State" where
  "transferDebit event fromHolder governance s =
     (if transfer_from event \<noteq> ZERO_ADDRESS then
        (let fromHolderPreviousBalance = tokenBalanceRaw fromHolder;
             fromHolder = setBigInt ''tokenBalanceRaw''
               (tokenBalanceRaw fromHolder - transfer_value event) fromHolder;
             fromHolder = setBigDecimal ''tokenBalance''
               (toDecimal (tokenBalanceRaw fromHolder)) fromHolder;
             s = (if tokenBalanceRaw fromHolder < BIGINT_ZERO
                  then logError ''Negative balance on holder {} with balance {}''
                         [entity_id fromHolder, bigIntToString (tokenBalanceRaw fromHolder)] s
                  else s);
             (governance, s) =
               (if tokenBalanceRaw fromHolder = BIGINT_ZERO \<and> fromHolderPreviousBalance > BIGINT_ZERO
                then (let governance = setBigInt ''currentTokenHolders''
                            (currentTokenHolders governance - BIGINT_ONE) governance
                      in (governance, saveGovernance governance s))
                else if tokenBalanceRaw fromHolder > BIGINT_ZERO \<and> fromHolderPreviousBalance = BIGINT_ZERO
                then (let governance = setBigInt ''currentTokenHolders''
                            (currentTokenHolders governance + BIGINT_ONE) governance
                      in (governance, saveGovernance governance s))
                else (governance, s))
         in (governance, saveTokenHolder fromHolder s))
      else (governance, s))"

definition transferCredit :: "Transfer \<Rightarrow> Entity \<Rightarrow> Entity \<Rightarrow> State \<Rightarrow> State" where
  "transferCredit event toHolder governance s =
     (let toHolderPreviousBalance = tokenBalanceRaw toHolder;
          toHolder = setBigInt ''tokenBalanceRaw''
            (tokenBalanceRaw toHolder + transfer_value event) toHolder;
          toHolder = setBigDecimal ''tokenBalance'' (toDecimal (tokenBalanceRaw toHolder)) toHolder;
          toHolder = setBigInt ''totalTokensHeldRaw''
            (totalTokensHeldRaw toHolder + transfer_value event) toHolder;
          toHolder = setBigDecimal ''totalTokensHeld''
            (toDecimal (totalTokensHeldRaw toHolder)) toHolder;
          s = (if tokenBalanceRaw toHolder = BIGINT_ZERO \<and> toHolderPreviousBalance > BIGINT_ZERO
               then saveGovernance (setBigInt ''currentTokenHolders''
                      (currentTokenHolders governance - BIGINT_ONE) governance) s
               else if tokenBalanceRaw toHolder > BIGINT_ZERO \<and> toHolderPreviousBalance = BIGINT_ZERO
               then saveGovernance (setBigInt ''currentTokenHolders''
                      (currentTokenHolders governance + BIGINT_ONE) governance) s
               else s)
      in saveTokenHolder toHolder s)"

definition handleTransfer :: "Transfer \<Rightarrow> State \<Rightarrow> State" where
  "handleTransfer event s =
     (let fromHolder = getTokenHolder s (transfer_from event);
          toHolder = getTokenHolder s (transfer_to event);
          governance = getGovernance s;
          (governance, s) = transferDebit event fromHolder governance s
      in transferCredit event toHolder governance s)"

text \<open>
  Modelled from the spec: the dispatch layer (the manifest that routes "each incoming event,
  by its type, to the matching transition function") is not under src/. Events are
  processed one at a time, in order; a handler that aborts stops the processing.
\<close>

datatype Event =
    EvProposalCanceled ProposalCanceled
  | EvProposalCreated ProposalCreated
  | EvProposalExecuted ProposalExecuted
  | EvProposalQueued ProposalQueued
  | EvQuorumNumeratorUpdated QuorumNumeratorUpdated
  | EvTimelockChange EthereumEvent
  | EvVoteCast VoteCast
  | EvDelegateChanged DelegateChanged
  | EvDelegateVotesChanged DelegateVotesChanged
  | EvTransfer Transfer

fun handleEvent :: "Event \<Rightarrow> State \<Rightarrow> Fault + State" where
  "handleEvent (EvProposalCanceled e) s = Inr (handleProposalCanceled e s)"
| "handleEvent (EvProposalCreated e) s = handleProposalCreated e s"
| "handleEvent (EvProposalExecuted e) s = Inr (handleProposalExecuted e s)"
| "handleEvent (EvProposalQueued e) s = Inr (handleProposalQueued e s)"
| "handleEvent (EvQuorumNumeratorUpdated e) s = Inr (handleQuorumNumeratorUpdated e s)"
| "handleEvent (EvTimelockChange e) s = Inr (handleTimelockChange e s)"
| "handleEvent (EvVoteCast e) s = Inr (handleVoteCast e s)"
| "handleEvent (EvDelegateChanged e) s = handleDelegateChanged e s"
| "handleEvent (EvDelegateVotesChanged e) s = Inr (handleDelegateVotesChanged e s)"
| "handleEvent (EvTransfer e) s = Inr (handleTransfer e s)"

fun processEvents :: "Event list \<Rightarrow> State \<Rightarrow> Fault + State" where
  "processEvents [] s = Inr s"
| "processEvents (e # es) s =
     (case handleEvent e s of Inl f \<Rightarrow> Inl f | Inr s' \<Rightarrow> processEvents es s')"

section \<open>The MasterChef reward handlers of the biswap mapping\<close>

text \<open>
  \<^verbatim>\<open>reward.ts\<close>. The reward accounting (\<^verbatim>\<open>handleReward\<close>, imported from the common handlers)
  is not under src/: the three handlers take it as a parameter. It receives the event as
  an \<^verbatim>\<open>ethereum.Event\<close>, the pool id and the signed amount.
  Modelled from the spec: \<^verbatim>\<open>BIGINT_NEG_ONE\<close> of the common constants is missing; by its name,
  and by the spec's "negated amount", it is minus one.
\<close>

record Deposit = EthereumEvent +
  deposit_user :: string
  deposit_pid :: int
  deposit_amount :: int

record Withdraw = EthereumEvent +
  withdraw_user :: string
  withdraw_pid :: int
  withdraw_amount :: int

record EmergencyWithdraw = EthereumEvent +
  emergency_user :: string
  emergency_pid :: int
  emergency_amount :: int

definition BIGINT_NEG_ONE :: int where
  "BIGINT_NEG_ONE = - 1"

definition handleDeposit :: "(EthereumEvent \<Rightarrow> int \<Rightarrow> int \<Rightarrow> 'r) \<Rightarrow> Deposit \<Rightarrow> 'r" where
  "handleDeposit handleReward event =
     handleReward (EthereumEvent.truncate event) (deposit_pid event) (deposit_amount event)"

definition handleWithdraw :: "(EthereumEvent \<Rightarrow> int \<Rightarrow> int \<Rightarrow> 'r) \<Rightarrow> Withdraw \<Rightarrow> 'r" where
  "handleWithdraw handleReward event =
     handleReward (EthereumEvent.truncate event) (withdraw_pid event)
       (withdraw_amount event * BIGINT_NEG_ONE)"

definition handleEmergencyWithdraw ::
  "(EthereumEvent \<Rightarrow> int \<Rightarrow> int \<Rightarrow> 'r) \<Rightarrow> EmergencyWithdraw \<Rightarrow> 'r" where
  "handleEmergencyWithdraw handleReward event =
     handleReward (EthereumEvent.truncate event) (emergency_pid event)
       (emergency_amount event * BIGINT_NEG_ONE)"

section \<open>Notions used in the statements and proofs\<close>

text \<open>An in-memory entity extends another one when it has the same id and every field the
  other one has: what a handler holds after loading an entity and assigning to some of its
  properties.\<close>

definition extends :: "Entity \<Rightarrow> Entity \<Rightarrow> bool" where
  "extends g e \<longleftrightarrow>
     entity_id g = entity_id e \<and> (\<forall>k. getField g k = None \<longrightarrow> getField e k = None)"

text \<open>Concrete events, for the runs that the statements below are evaluated on.\<close>

definition exampleCreated :: ProposalCreated where
  "exampleCreated = \<lparr>blockNumber = 100, blockTimestamp = 1000, transactionHash = ''0xc1'',
     created_proposalId = 1, created_proposer = ''0xa1'', created_targets = [''0xb1''],
     created_values = [0], created_signatures = [''f()''], created_calldatas = [''0x''],
     created_startBlock = 110, created_endBlock = 200, created_description = ''d''\<rparr>"

definition exampleQueued :: ProposalQueued where
  "exampleQueued = \<lparr>blockNumber = 210, blockTimestamp = 2100, transactionHash = ''0xc2'',
     queued_proposalId = 1, queued_eta = 2500\<rparr>"

definition exampleExecuted :: ProposalExecuted where
  "exampleExecuted = \<lparr>blockNumber = 260, blockTimestamp = 2600, transactionHash = ''0xc3'',
     executed_proposalId = 1\<rparr>"

definition exampleVote :: VoteCast where
  "exampleVote = \<lparr>blockNumber = 120, blockTimestamp = 1200, transactionHash = ''0xc4'',
     vote_voter = ''0xa1'', vote_proposalId = 1, vote_support = 7, vote_weight = 10,
     vote_reason = ''r''\<rparr>"

definition exampleVotesChanged :: DelegateVotesChanged where
  "exampleVotesChanged = \<lparr>blockNumber = 90, blockTimestamp = 900, transactionHash = ''0xc5'',
     votes_delegate = ''0xa1'', votes_previousBalance = 0, votes_newBalance = 5\<rparr>"

definition exampleMint :: Transfer where
  "exampleMint = \<lparr>blockNumber = 10, blockTimestamp = 100, transactionHash = ''0xd1'',
     transfer_from = ZERO_ADDRESS, transfer_to = ''0xa1'', transfer_value = 100\<rparr>"

definition exampleOverdraft :: Transfer where
  "exampleOverdraft = \<lparr>blockNumber = 11, blockTimestamp = 110, transactionHash = ''0xd2'',
     transfer_from = ''0xa1'', transfer_to = ''0xa2'', transfer_value = 150\<rparr>"

definition exampleSelfTransfer :: Transfer where
  "exampleSelfTransfer = \<lparr>blockNumber = 12, blockTimestamp = 120, transactionHash = ''0xd3'',
     transfer_from = ''0xa1'', transfer_to = ''0xa1'', transfer_value = 100\<rparr>"

definition exampleTransfer :: Transfer where
  "exampleTransfer = \<lparr>blockNumber = 13, blockTimestamp = 130, transactionHash = ''0xd4'',
     transfer_from = ''0xa1'', transfer_to = ''0xa2'', transfer_value = 100\<rparr>"

definition exampleVotesCleared :: DelegateVotesChanged where
  "exampleVotesCleared = \<lparr>blockNumber = 91, blockTimestamp = 910, transactionHash = ''0xc6'',
     votes_delegate = ''0xa1'', votes_previousBalance = 5, votes_newBalance = 0\<rparr>"

definition exampleVotesZero :: DelegateVotesChanged where
  "exampleVotesZero = \<lparr>blockNumber = 92, blockTimestamp = 920, transactionHash = ''0xc7'',
     votes_delegate = ''0xa2'', votes_previousBalance = 0, votes_newBalance = 0\<rparr>"

definition exampleSelfOverdraft :: Transfer where
  "exampleSelfOverdraft = \<lparr>blockNumber = 14, blockTimestamp = 140, transactionHash = ''0xd5'',
     transfer_from = ''0xa1'', transfer_to = ''0xa1'', transfer_value = 150\<rparr>"

text \<open>Running a sequence of \<^verbatim>\<open>Transfer\<close> events, and of \<^verbatim>\<open>DelegateVotesChanged\<close> events, in
  order.\<close>

fun applyTransfers :: "State \<Rightarrow> Transfer list \<Rightarrow> State" where
  "applyTransfers s [] = s"
| "applyTransfers s (e # es) = applyTransfers (handleTransfer e s) es"

fun applyVotesChanged :: "State \<Rightarrow> DelegateVotesChanged list \<Rightarrow> State" where
  "applyVotesChanged s [] = s"
| "applyVotesChanged s (e # es) = applyVotesChanged (handleDelegateVotesChanged e s) es"

text \<open>What the store holds in a BigInt field of an id (zero when the id has no entity), and
  the sum of a function of a BigInt field over the entities of a table.\<close>

definition storedBigInt :: "Table \<Rightarrow> string \<Rightarrow> string \<Rightarrow> int" where
  "storedBigInt tbl k a = (case storeGet tbl a of None \<Rightarrow> 0 | Some e \<Rightarrow> getBigInt e k)"

definition tableSum :: "(int \<Rightarrow> int) \<Rightarrow> string \<Rightarrow> Table \<Rightarrow> int" where
  "tableSum f k tbl = sum_list (map (\<lambda>e. f (getBigInt e k)) (tableEntities tbl))"

text \<open>The number of TokenHolder entities with a strictly positive balance, the sum of all
  balances, the number of Delegate entities with strictly positive delegated votes, and the
  total minted by a sequence of transfers (the values of those from the zero address).\<close>

definition holdersWithBalance :: "State \<Rightarrow> nat" where
  "holdersWithBalance s =
     length (filter (\<lambda>h. 0 < tokenBalanceRaw h) (tableEntities (tokenHolderTable s)))"

definition totalBalance :: "State \<Rightarrow> int" where
  "totalBalance s = sum_list (map tokenBalanceRaw (tableEntities (tokenHolderTable s)))"

definition delegatesWithVotes :: "State \<Rightarrow> nat" where
  "delegatesWithVotes s =
     length (filter (\<lambda>d. 0 < delegatedVotesRaw d) (tableEntities (delegateTable s)))"

definition totalMinted :: "Transfer list \<Rightarrow> int" where
  "totalMinted evs =
     sum_list (map transfer_value (filter (\<lambda>e. transfer_from e = ZERO_ADDRESS) evs))"

text \<open>The zero-crossing rule of the spec: minus one on a move from positive to exactly
  zero, plus one on a move from exactly zero to positive, nothing otherwise.\<close>

definition zeroCrossing :: "int \<Rightarrow> int \<Rightarrow> int" where
  "zeroCrossing previous new =
     (if new = 0 \<and> 0 < previous then - 1 else if 0 < new \<and> previous = 0 then 1 else 0)"

text \<open>
  A sequence of transfers is covered, from a state on, when every value is non-negative
  and every transfer from a non-zero address goes to another address and moves no more than
  the sender's balance at that moment (so no balance is driven negative).
\<close>

fun coveredTransfers :: "State \<Rightarrow> Transfer list \<Rightarrow> bool" where
  "coveredTransfers s [] = True"
| "coveredTransfers s (e # es) =
     (0 \<le> transfer_value e \<and>
      (transfer_from e = ZERO_ADDRESS \<or>
       (transfer_to e \<noteq> transfer_from e \<and>
        transfer_value e \<le> tokenBalanceRaw (getTokenHolder s (transfer_from e)))) \<and>
      coveredTransfers (handleTransfer e s) es)"

text \<open>
  A sequence of vote changes is consistent, from a state on, when the balances are
  non-negative (they are uint256 on the chain), not both zero, and every event's previous
  balance is the delegated votes the store holds for the delegate at that moment.
\<close>

fun consistentVotesChanged :: "State \<Rightarrow> DelegateVotesChanged list \<Rightarrow> bool" where
  "consistentVotesChanged s [] = True"
| "consistentVotesChanged s (e # es) =
     (0 \<le> votes_previousBalance e \<and> 0 \<le> votes_newBalance e \<and>
      (0 < votes_previousBalance e \<or> 0 < votes_newBalance e) \<and>
      votes_previousBalance e = storedBigInt (delegateTable s) ''delegatedVotesRaw'' (votes_delegate e) \<and>
      consistentVotesChanged (handleDelegateVotesChanged e s) es)"

text \<open>The invariants of the two counters.\<close>

definition holdersCounted :: "State \<Rightarrow> bool" where
  "holdersCounted s \<longleftrightarrow>
     currentTokenHolders (getGovernance s) = int (holdersWithBalance s) \<and>
     distinct (map fst (tokenHolderTable s)) \<and>
     (\<forall>a. 0 \<le> tokenBalanceRaw (getTokenHolder s a))"

definition delegatesCounted :: "State \<Rightarrow> bool" where
  "delegatesCounted s \<longleftrightarrow>
     currentDelegates (getGovernance s) = int (delegatesWithVotes s) \<and>
     distinct (map fst (delegateTable s)) \<and>
     (\<forall>a. 0 \<le> storedBigInt (delegateTable s) ''delegatedVotesRaw'' a)"

section \<open>Entities and the store\<close>

lemma entity_id_setField: "entity_id (setField k v e) = entity_id e"
  by (simp add: setField_def)

lemma getField_setField:
  "getField (setField k v e) k' = (if k' = k then Some v else getField e k')"
  by (simp add: getField_def setField_def update_conv')

lemma getField_bareEntity: "getField (bareEntity i) k = None"
  by (simp add: getField_def bareEntity_def)

lemma entity_id_bareEntity: "entity_id (bareEntity i) = i"
  by (simp add: bareEntity_def)

lemmas setters =
  setBigInt_def setI32_def setString_def setBigDecimal_def setNullableBigInt_def

lemmas constructors =
  createGovernance_def createTokenHolder_def createDelegate_def createProposal_def createVote_def

lemma entity_id_constructors:
  "entity_id (createGovernance i) = i"
  "entity_id (createTokenHolder i) = i"
  "entity_id (createDelegate i) = i"
  "entity_id (createProposal i) = i"
  "entity_id (createVote i) = i"
  by (simp_all add: constructors setters entity_id_setField entity_id_bareEntity)

lemma getBigInt_setField:
  "getBigInt (setField k v e) k' =
     (if k' = k then (case v of VBigInt n \<Rightarrow> n | _ \<Rightarrow> 0) else getBigInt e k')"
  by (simp add: getBigInt_def getField_setField)


lemma getString_setField:
  "getString (setField k v e) k' =
     (if k' = k then (case v of VString n \<Rightarrow> n | _ \<Rightarrow> []) else getString e k')"
  by (simp add: getString_def getField_setField)

lemma entity_id_storeGet: "storeGet tbl i = Some e \<Longrightarrow> entity_id e = i"
  by (auto simp: storeGet_def)

text \<open>What a load reads after a save.\<close>

lemma getField_load_storeSet:
  "getField (case storeGet (storeSet e tbl) i of Some x \<Rightarrow> x | None \<Rightarrow> d) k =
     (if i = entity_id e
      then (case getField e k of
              Some v \<Rightarrow> Some v
            | None \<Rightarrow> (case storeGet tbl i of None \<Rightarrow> None | Some old \<Rightarrow> getField old k))
      else getField (case storeGet tbl i of Some x \<Rightarrow> x | None \<Rightarrow> d) k)"
  by (auto simp: storeSet_def update_conv' getField_def storeGet_def merge_conv' map_add_def
      split: option.splits)

lemma getGovernance_id: "entity_id (getGovernance s) = GOVERNANCE_NAME"
  by (auto simp: getGovernance_def constructors setters entity_id_setField entity_id_bareEntity
      dest: entity_id_storeGet split: option.splits)

lemma getTokenHolder_id: "entity_id (getTokenHolder s a) = a"
  by (auto simp: getTokenHolder_def constructors setters entity_id_setField entity_id_bareEntity
      dest: entity_id_storeGet split: option.splits)

lemma getProposal_id: "entity_id (getProposal s a) = a"
  by (auto simp: getProposal_def constructors setters entity_id_setField entity_id_bareEntity
      dest: entity_id_storeGet split: option.splits)

lemma getField_getProposal_saveProposal:
  "getField (getProposal (saveProposal e s) i) k =
     (if i = entity_id e
      then (case getField e k of
              Some v \<Rightarrow> Some v
            | None \<Rightarrow> (case storeGet (proposalTable s) i of
                         None \<Rightarrow> None | Some old \<Rightarrow> getField old k))
      else getField (getProposal s i) k)"
  unfolding getProposal_def constructors saveProposal_def
  by (simp add: getField_load_storeSet)

lemma getField_getGovernance_saveGovernance:
  "entity_id g = GOVERNANCE_NAME \<Longrightarrow>
   getField (getGovernance (saveGovernance g s)) k =
     (case getField g k of
        Some v \<Rightarrow> Some v
      | None \<Rightarrow> (case storeGet (governanceTable s) GOVERNANCE_NAME of
                   None \<Rightarrow> None | Some old \<Rightarrow> getField old k))"
  unfolding getGovernance_def constructors saveGovernance_def
  by (simp add: getField_load_storeSet)

lemma getGovernance_other [simp]:
  "getGovernance (saveProposal e s) = getGovernance s"
  "getGovernance (saveTokenHolder e s) = getGovernance s"
  "getGovernance (saveDelegate e s) = getGovernance s"
  "getGovernance (saveVote e s) = getGovernance s"
  "getGovernance (logError f a s) = getGovernance s"
  by (simp_all add: getGovernance_def constructors saveProposal_def saveTokenHolder_def saveDelegate_def
      saveVote_def logError_def)

lemma getProposal_other [simp]:
  "getProposal (saveGovernance e s) = getProposal s"
  "getProposal (saveTokenHolder e s) = getProposal s"
  "getProposal (saveDelegate e s) = getProposal s"
  "getProposal (saveVote e s) = getProposal s"
  "getProposal (logError f a s) = getProposal s"
  by (simp_all add: getProposal_def constructors saveGovernance_def saveTokenHolder_def saveDelegate_def
      saveVote_def logError_def fun_eq_iff)

lemma extends_refl: "extends e e"
  by (simp add: extends_def)

lemma extends_setField: "extends g e \<Longrightarrow> extends (setField k v g) e"
  by (simp add: extends_def entity_id_setField getField_setField)

lemma extends_setters:
  "extends g e \<Longrightarrow> extends (setBigInt k n g) e"
  "extends g e \<Longrightarrow> extends (setString k x g) e"
  "extends g e \<Longrightarrow> extends (setI32 k w g) e"
  "extends g e \<Longrightarrow> extends (setBigDecimal k d g) e"
  "extends g e \<Longrightarrow> extends (setNullableBigInt k m g) e"
  by (simp_all add: setters extends_setField)

text \<open>Saving an entity that was loaded and then assigned to stores exactly its fields.\<close>

lemma getField_governance_extends:
  assumes "extends g (getGovernance s)"
  shows "getField (getGovernance (saveGovernance g s)) k = getField g k"
proof -
  have i: "entity_id g = GOVERNANCE_NAME"
    using assms by (simp add: extends_def getGovernance_id)
  show ?thesis
    using assms unfolding getField_getGovernance_saveGovernance [OF i]
    by (auto simp: extends_def getGovernance_def constructors split: option.splits)
qed

lemma getField_proposal_extends:
  assumes "extends p (getProposal s i)"
  shows "getField (getProposal (saveProposal p s) i) k = getField p k"
proof -
  have i: "entity_id p = i"
    using assms by (simp add: extends_def getProposal_id)
  show ?thesis
    using assms unfolding getField_getProposal_saveProposal i
    by (auto simp: extends_def getProposal_def constructors split: option.splits)
qed

section \<open>The proposal lifecycle\<close>

lemma executed_proposal:
  "getField (getProposal (handleProposalExecuted ev s) (bigIntToString (executed_proposalId ev))) k =
     (if k = ''executionTime'' then Some (VBigInt (blockTimestamp ev))
      else if k = ''executionBlock'' then Some (VBigInt (blockNumber ev))
      else if k = ''executionETA'' then Some VNull
      else if k = ''state'' then Some (VString PROPOSAL_STATE_EXECUTED)
      else getField (getProposal s (bigIntToString (executed_proposalId ev))) k)"
  unfolding handleProposalExecuted_def Let_def
  by (simp add: getField_proposal_extends extends_setters extends_refl)
     (simp add: setters getField_setField)

lemma executed_governance:
  "getField (getGovernance (handleProposalExecuted ev s)) k =
     (if k = ''proposalsExecuted'' then Some (VBigInt (proposalsExecuted (getGovernance s) + 1))
      else if k = ''proposalsQueued'' then Some (VBigInt (proposalsQueued (getGovernance s) - 1))
      else getField (getGovernance s) k)"
  unfolding handleProposalExecuted_def Let_def
  by (simp add: getField_governance_extends extends_setters extends_refl)
     (simp add: setters getField_setField getBigInt_setField BIGINT_ONE_def)

lemma queued_governance:
  "getField (getGovernance (handleProposalQueued ev s)) k =
     (if k = ''proposalsQueued'' then Some (VBigInt (proposalsQueued (getGovernance s) + 1))
      else getField (getGovernance s) k)"
  unfolding handleProposalQueued_def Let_def
  by (simp add: getField_governance_extends extends_setters extends_refl)
     (simp add: setters getField_setField getBigInt_setField BIGINT_ONE_def)

lemma created_governance:
  "\<exists>s'. handleProposalCreated ev s = Inr s' \<and>
     (\<forall>k. getField (getGovernance s') k =
       (if k = ''proposals'' then Some (VBigInt (proposals (getGovernance s) + 1))
        else getField (getGovernance s) k))"
  unfolding handleProposalCreated_def proposalCreated_def Let_def getDelegate_def constructors
  by (simp add: getField_governance_extends extends_setters extends_refl split: option.splits)
     (simp add: setters getField_setField getBigInt_setField BIGINT_ONE_def)

lemma getBigInt_bareEntity: "getBigInt (bareEntity i) k = 0"
  by (simp add: getBigInt_def getField_bareEntity)

section \<open>Casting a vote\<close>

lemma storeGet_storeSet_same:
  "\<exists>e'. storeGet (storeSet e tbl) (entity_id e) = Some e' \<and>
     (\<forall>k. getField e' k =
        (case getField e k of
           Some v \<Rightarrow> Some v
         | None \<Rightarrow> (case storeGet tbl (entity_id e) of
                      None \<Rightarrow> None | Some old \<Rightarrow> getField old k)))"
  by (auto simp: storeSet_def update_conv' getField_def storeGet_def merge_conv' map_add_def
      split: option.splits)

lemma votecast_tables:
  "voteTable (handleVoteCast ev s) =
     storeSet (setString ''choice'' (getVoteChoiceByValue (vote_support ev))
       (setString ''reason'' (vote_reason ev)
         (setBigInt ''weight'' (vote_weight ev)
           (setString ''voter'' (vote_voter ev)
             (setString ''proposal'' (bigIntToString (vote_proposalId ev))
               (createVote (vote_voter ev @ ''-'' @ bigIntToString (vote_proposalId ev))))))))
       (voteTable s)"
  "delegateTable (handleVoteCast ev s) =
     storeSet (setI32 ''numberVotes'' (numberVotes (createDelegate (vote_voter ev)) + 1)
       (createDelegate (vote_voter ev))) (delegateTable s)"
  by (simp_all add: handleVoteCast_def Let_def saveVote_def saveProposal_def saveDelegate_def)

lemma votecast_proposal:
  "getField (getProposal (handleVoteCast ev s) (bigIntToString (vote_proposalId ev))) k =
     getField
       (let proposal = getProposal s (bigIntToString (vote_proposalId ev));
            proposal = (if proposalState proposal = PROPOSAL_STATE_PENDING
                      then setString ''state'' PROPOSAL_STATE_ACTIVE proposal
                      else proposal)
        in (if vote_support ev = 0
             then setBigInt ''againstVotes'' (againstVotes proposal + BIGINT_ONE) proposal
             else if vote_support ev = 1
             then setBigInt ''forVotes'' (forVotes proposal + BIGINT_ONE) proposal
             else if vote_support ev = 2
             then setBigInt ''abstainVotes'' (abstainVotes proposal + BIGINT_ONE) proposal
             else proposal)) k"
  unfolding handleVoteCast_def Let_def
  by (simp add: getField_proposal_extends extends_setters extends_refl)

lemma bigIntToString_1: "bigIntToString 1 = ''1''"
  by (simp add: bigIntToString_def natToString.simps digitChar_def)

lemma getProposal_emptyState:
  "getBigInt (getProposal emptyState i) k = 0"
  by (simp add: getProposal_def constructors emptyState_def storeGet_def setters getBigInt_setField
      BIGINT_ZERO_def getBigInt_bareEntity)


section \<open>The proposer of a created proposal\<close>

text \<open>Had \<^verbatim>\<open>getDelegate\<close> returned null, the handler would have reported the fault and
  then aborted at \<^verbatim>\<open>proposer.id\<close>.\<close>

lemma proposalCreated_null_proposer:
  "proposalCreated proposal None ev s =
     Inl (NullDereference (logs s @
       [LogError ''Delegate participant {} not found on ProposalCreated. tx_hash: {}''
          [created_proposer ev, transactionHash ev]]))"
  by (simp add: proposalCreated_def logError_def)

lemma created_proposal:
  "\<exists>s' p. handleProposalCreated ev s = Inr s' \<and> getDelegate s (created_proposer ev) = Some p \<and>
     getField (getProposal s' (bigIntToString (created_proposalId ev))) ''proposer''
       = Some (VString (entity_id p))"
  unfolding handleProposalCreated_def proposalCreated_def Let_def
  by (simp add: getDelegate_def constructors getField_proposal_extends extends_setters extends_setField
       extends_refl split: option.splits)
     (simp add: setters getField_setField)

section \<open>Transfers\<close>

lemma getTokenHolder_other [simp]:
  "getTokenHolder (saveGovernance e s) = getTokenHolder s"
  "getTokenHolder (saveProposal e s) = getTokenHolder s"
  "getTokenHolder (saveDelegate e s) = getTokenHolder s"
  "getTokenHolder (saveVote e s) = getTokenHolder s"
  "getTokenHolder (logError f a s) = getTokenHolder s"
  by (simp_all add: getTokenHolder_def constructors saveGovernance_def saveProposal_def saveDelegate_def
      saveVote_def logError_def fun_eq_iff)

lemma getBigInt_getTokenHolder_saveTokenHolder:
  assumes "getField e k = Some (VBigInt n)"
  shows "getBigInt (getTokenHolder (saveTokenHolder e s) a) k =
           (if a = entity_id e then n else getBigInt (getTokenHolder s a) k)"
  unfolding getBigInt_def getTokenHolder_def constructors saveTokenHolder_def
  using assms by (simp add: getField_load_storeSet)

text \<open>The debit block: the balance it stores, the log, and the governance object.\<close>

lemma transferDebit_balance:
  "tokenBalanceRaw (getTokenHolder (snd (transferDebit ev fromHolder governance s)) a) =
     (if transfer_from ev \<noteq> ZERO_ADDRESS \<and> a = entity_id fromHolder
      then tokenBalanceRaw fromHolder - transfer_value ev
      else tokenBalanceRaw (getTokenHolder s a))"
  unfolding transferDebit_def Let_def
  by (simp add: split_def getBigInt_getTokenHolder_saveTokenHolder setters getField_setField
      getBigInt_setField entity_id_setField)

lemma transferCredit_balance:
  "tokenBalanceRaw (getTokenHolder (transferCredit ev toHolder governance s) a) =
     (if a = entity_id toHolder
      then tokenBalanceRaw toHolder + transfer_value ev
      else tokenBalanceRaw (getTokenHolder s a))"
  unfolding transferCredit_def Let_def
  by (simp add: getBigInt_getTokenHolder_saveTokenHolder setters getField_setField
      getBigInt_setField entity_id_setField)

lemma handleTransfer_balance:
  "tokenBalanceRaw (getTokenHolder (handleTransfer ev s) a) =
     (if a = transfer_to ev
      then tokenBalanceRaw (getTokenHolder s (transfer_to ev)) + transfer_value ev
      else if transfer_from ev \<noteq> ZERO_ADDRESS \<and> a = transfer_from ev
      then tokenBalanceRaw (getTokenHolder s (transfer_from ev)) - transfer_value ev
      else tokenBalanceRaw (getTokenHolder s a))"
  unfolding handleTransfer_def Let_def split_def
  by (simp add: transferCredit_balance transferDebit_balance getTokenHolder_id)

lemma transferDebit_logs:
  "logs (snd (transferDebit ev fromHolder governance s)) =
     (if transfer_from ev \<noteq> ZERO_ADDRESS \<and> tokenBalanceRaw fromHolder - transfer_value ev < 0
      then logs s @ [LogError ''Negative balance on holder {} with balance {}''
             [entity_id fromHolder,
              bigIntToString (tokenBalanceRaw fromHolder - transfer_value ev)]]
      else logs s)"
  unfolding transferDebit_def Let_def
  by (simp add: split_def saveTokenHolder_def saveGovernance_def logError_def setters
      getBigInt_setField entity_id_setField BIGINT_ZERO_def)

lemma transferCredit_logs:
  "logs (transferCredit ev toHolder governance s) = logs s"
  unfolding transferCredit_def Let_def
  by (simp add: saveTokenHolder_def saveGovernance_def)

lemma after_exampleMint:
  "tokenBalanceRaw (getTokenHolder (handleTransfer exampleMint emptyState) ''0xa1'') = 100"
  "logs (handleTransfer exampleMint emptyState) = []"
  by code_simp+

section \<open>Counting and summing over a table\<close>

lemma sum_list_alist_update:
  fixes h :: "'k \<times> 'v \<Rightarrow> int"
  shows "sum_list (map h (AList.update k v al)) =
           sum_list (map h al) - (case map_of al k of None \<Rightarrow> 0 | Some old \<Rightarrow> h (k, old)) + h (k, v)"
  by (induction al) auto

lemma tableSum_storeSet:
  assumes "getField e k = Some (VBigInt n)" and "f 0 = 0"
  shows "tableSum f k (storeSet e tbl) =
           tableSum f k tbl - f (storedBigInt tbl k (entity_id e)) + f n"
proof -
  let ?h = "\<lambda>p. f (getBigInt \<lparr>entity_id = fst p, entity_fields = snd p\<rparr> k)"
  have m: "tableSum f k t = sum_list (map ?h t)" for t
    by (simp add: tableSum_def tableEntities_def comp_def split_def)
  have n: "?h (entity_id e, case map_of tbl (entity_id e) of None \<Rightarrow> entity_fields e
                 | Some old \<Rightarrow> AList.merge old (entity_fields e)) = f n"
    using assms(1)
    by (auto simp: getBigInt_def getField_def merge_conv' map_add_def split: option.splits)
  have o: "(case map_of tbl (entity_id e) of None \<Rightarrow> 0 | Some old \<Rightarrow> ?h (entity_id e, old))
      = f (storedBigInt tbl k (entity_id e))"
    using assms(2) by (simp add: storedBigInt_def storeGet_def split: option.splits)
  show ?thesis
    unfolding m storeSet_def sum_list_alist_update n o ..
qed

lemma storedBigInt_storeSet:
  assumes "getField e k = Some (VBigInt n)"
  shows "storedBigInt (storeSet e tbl) k a =
           (if a = entity_id e then n else storedBigInt tbl k a)"
  using assms
  by (auto simp: storedBigInt_def storeGet_def storeSet_def update_conv' getBigInt_def
      getField_def merge_conv' map_add_def split: option.splits)

lemma distinct_storeSet:
  "distinct (map fst tbl) \<Longrightarrow> distinct (map fst (storeSet e tbl))"
  by (simp add: storeSet_def distinct_update)

lemma count_as_tableSum:
  "int (length (filter (\<lambda>e. 0 < getBigInt e k) (tableEntities tbl))) =
     tableSum (\<lambda>b. if 0 < b then 1 else 0) k tbl"
  unfolding tableSum_def by (induction "tableEntities tbl" arbitrary: tbl) (auto simp: tableEntities_def)

lemma balance_as_stored:
  "tokenBalanceRaw (getTokenHolder s a) = storedBigInt (tokenHolderTable s) ''tokenBalanceRaw'' a"
  by (simp add: getTokenHolder_def constructors storedBigInt_def setters getBigInt_setField
      BIGINT_ZERO_def split: option.splits)

section \<open>The holder table and the holder counter through a transfer\<close>

lemma getBigInt_setters:
  "getBigInt (setBigInt k n e) k' = (if k' = k then n else getBigInt e k')"
  "getBigInt (setBigDecimal k d e) k' = (if k' = k then 0 else getBigInt e k')"
  "getBigInt (setString k x e) k' = (if k' = k then 0 else getBigInt e k')"
  "getBigInt (setI32 k w e) k' = (if k' = k then 0 else getBigInt e k')"
  by (simp_all add: setters getBigInt_setField)

lemma tokenHolderTable_other [simp]:
  "tokenHolderTable (saveGovernance e s) = tokenHolderTable s"
  "tokenHolderTable (logError f a s) = tokenHolderTable s"
  "tokenHolderTable (saveTokenHolder e s) = storeSet e (tokenHolderTable s)"
  by (simp_all add: saveGovernance_def logError_def saveTokenHolder_def)

lemma transferDebit_table:
  "tokenHolderTable (snd (transferDebit ev fromHolder governance s)) =
     (if transfer_from ev \<noteq> ZERO_ADDRESS
      then storeSet
        (setBigDecimal ''tokenBalance''
          (toDecimal (tokenBalanceRaw fromHolder - transfer_value ev))
          (setBigInt ''tokenBalanceRaw'' (tokenBalanceRaw fromHolder - transfer_value ev)
            fromHolder))
        (tokenHolderTable s)
      else tokenHolderTable s)"
  unfolding transferDebit_def Let_def
  by (simp add: split_def setters getBigInt_setField)

lemma transferCredit_table:
  "tokenHolderTable (transferCredit ev toHolder governance s) =
     storeSet
       (setBigDecimal ''totalTokensHeld''
         (toDecimal (totalTokensHeldRaw toHolder + transfer_value ev))
         (setBigInt ''totalTokensHeldRaw'' (totalTokensHeldRaw toHolder + transfer_value ev)
           (setBigDecimal ''tokenBalance'' (toDecimal (tokenBalanceRaw toHolder + transfer_value ev))
             (setBigInt ''tokenBalanceRaw'' (tokenBalanceRaw toHolder + transfer_value ev)
               toHolder))))
       (tokenHolderTable s)"
  unfolding transferCredit_def Let_def
  by (simp add: setters getBigInt_setField)

lemma handleTransfer_table:
  "\<exists>fromHolder toHolder.
     entity_id fromHolder = transfer_from ev \<and>
     getField fromHolder ''tokenBalanceRaw'' =
       Some (VBigInt (tokenBalanceRaw (getTokenHolder s (transfer_from ev)) - transfer_value ev)) \<and>
     entity_id toHolder = transfer_to ev \<and>
     getField toHolder ''tokenBalanceRaw'' =
       Some (VBigInt (tokenBalanceRaw (getTokenHolder s (transfer_to ev)) + transfer_value ev)) \<and>
     tokenHolderTable (handleTransfer ev s) =
       storeSet toHolder
         (if transfer_from ev \<noteq> ZERO_ADDRESS
          then storeSet fromHolder (tokenHolderTable s) else tokenHolderTable s)"
proof -
  let ?f = "setBigDecimal ''tokenBalance''
      (toDecimal (tokenBalanceRaw (getTokenHolder s (transfer_from ev)) - transfer_value ev))
      (setBigInt ''tokenBalanceRaw''
        (tokenBalanceRaw (getTokenHolder s (transfer_from ev)) - transfer_value ev)
        (getTokenHolder s (transfer_from ev)))"
  let ?b = "tokenBalanceRaw (getTokenHolder s (transfer_to ev)) + transfer_value ev"
  let ?h = "totalTokensHeldRaw (getTokenHolder s (transfer_to ev)) + transfer_value ev"
  let ?t = "setBigDecimal ''totalTokensHeld'' (toDecimal ?h)
      (setBigInt ''totalTokensHeldRaw'' ?h
        (setBigDecimal ''tokenBalance'' (toDecimal ?b)
          (setBigInt ''tokenBalanceRaw'' ?b (getTokenHolder s (transfer_to ev)))))"
  have "tokenHolderTable (handleTransfer ev s) =
       storeSet ?t
         (if transfer_from ev \<noteq> ZERO_ADDRESS
          then storeSet ?f (tokenHolderTable s) else tokenHolderTable s)"
    unfolding handleTransfer_def Let_def split_def transferCredit_table transferDebit_table ..
  moreover have "entity_id ?f = transfer_from ev" "entity_id ?t = transfer_to ev"
    by (simp_all add: setters entity_id_setField getTokenHolder_id)
  moreover have "getField ?f ''tokenBalanceRaw'' =
       Some (VBigInt (tokenBalanceRaw (getTokenHolder s (transfer_from ev)) - transfer_value ev))"
    "getField ?t ''tokenBalanceRaw'' = Some (VBigInt ?b)"
    by (simp_all add: setters getField_setField)
  ultimately show ?thesis by blast
qed


text \<open>The governance object through the two blocks.\<close>

lemma transferDebit_governance:
  assumes "transferDebit ev fromHolder (getGovernance s) s = (g1, s1)"
  shows "entity_id g1 = GOVERNANCE_NAME \<and>
         (\<forall>k. getField (getGovernance s1) k = getField g1 k) \<and>
         currentTokenHolders g1 = currentTokenHolders (getGovernance s) +
           (if transfer_from ev \<noteq> ZERO_ADDRESS
            then zeroCrossing (tokenBalanceRaw fromHolder)
                   (tokenBalanceRaw fromHolder - transfer_value ev)
            else 0)"
  using assms unfolding transferDebit_def Let_def zeroCrossing_def
  by (auto simp: setters getBigInt_setField entity_id_setField getGovernance_id
      getField_governance_extends extends_setField extends_refl BIGINT_ZERO_def BIGINT_ONE_def
      split: if_splits)

lemma transferCredit_governance:
  assumes "entity_id g1 = GOVERNANCE_NAME"
    and "\<And>k. getField (getGovernance s1) k = getField g1 k"
  shows "currentTokenHolders (getGovernance (transferCredit ev toHolder g1 s1)) =
           currentTokenHolders g1 +
             zeroCrossing (tokenBalanceRaw toHolder) (tokenBalanceRaw toHolder + transfer_value ev)"
proof -
  have e: "extends (setBigInt ''currentTokenHolders'' n g1) (getGovernance s1)" for n
    using assms by (simp add: extends_def setters entity_id_setField getField_setField
        getGovernance_id)
  have c: "currentTokenHolders (getGovernance s1) = currentTokenHolders g1"
    by (simp add: getBigInt_def assms(2))
  have x: "currentTokenHolders (getGovernance
      (saveGovernance (setBigInt ''currentTokenHolders'' n g1) s1)) = n" for n
    unfolding getBigInt_def getField_governance_extends [OF e]
    by (simp add: setters getField_setField)
  show ?thesis
    unfolding transferCredit_def Let_def zeroCrossing_def
    by (simp add: x c getBigInt_setters BIGINT_ZERO_def BIGINT_ONE_def)
qed

lemma handleTransfer_counter:
  "currentTokenHolders (getGovernance (handleTransfer ev s)) =
     currentTokenHolders (getGovernance s) +
       (if transfer_from ev \<noteq> ZERO_ADDRESS
        then zeroCrossing (tokenBalanceRaw (getTokenHolder s (transfer_from ev)))
               (tokenBalanceRaw (getTokenHolder s (transfer_from ev)) - transfer_value ev)
        else 0) +
       zeroCrossing (tokenBalanceRaw (getTokenHolder s (transfer_to ev)))
         (tokenBalanceRaw (getTokenHolder s (transfer_to ev)) + transfer_value ev)"
proof -
  obtain g1 s1 where d: "transferDebit ev (getTokenHolder s (transfer_from ev)) (getGovernance s) s
      = (g1, s1)"
    by (cases "transferDebit ev (getTokenHolder s (transfer_from ev)) (getGovernance s) s")
  note g = transferDebit_governance [OF d]
  have "handleTransfer ev s = transferCredit ev (getTokenHolder s (transfer_to ev)) g1 s1"
    by (simp add: handleTransfer_def Let_def d)
  then show ?thesis
    using g by (simp add: transferCredit_governance)
qed

section \<open>The invariant of the holder counter, and the conservation of the supply\<close>

lemma handleTransfer_tableSum:
  assumes "f 0 = 0"
    and "transfer_from ev = ZERO_ADDRESS \<or> transfer_to ev \<noteq> transfer_from ev"
  shows "tableSum f ''tokenBalanceRaw'' (tokenHolderTable (handleTransfer ev s)) =
           tableSum f ''tokenBalanceRaw'' (tokenHolderTable s) +
           (if transfer_from ev \<noteq> ZERO_ADDRESS
            then f (tokenBalanceRaw (getTokenHolder s (transfer_from ev)) - transfer_value ev)
                   - f (tokenBalanceRaw (getTokenHolder s (transfer_from ev)))
            else 0) +
           (f (tokenBalanceRaw (getTokenHolder s (transfer_to ev)) + transfer_value ev)
              - f (tokenBalanceRaw (getTokenHolder s (transfer_to ev))))"
proof -
  obtain fromHolder toHolder where
    fi: "entity_id fromHolder = transfer_from ev" and
    fb: "getField fromHolder ''tokenBalanceRaw'' =
       Some (VBigInt (tokenBalanceRaw (getTokenHolder s (transfer_from ev)) - transfer_value ev))" and
    ti: "entity_id toHolder = transfer_to ev" and
    tb: "getField toHolder ''tokenBalanceRaw'' =
       Some (VBigInt (tokenBalanceRaw (getTokenHolder s (transfer_to ev)) + transfer_value ev))" and
    tbl: "tokenHolderTable (handleTransfer ev s) =
       storeSet toHolder
         (if transfer_from ev \<noteq> ZERO_ADDRESS
          then storeSet fromHolder (tokenHolderTable s) else tokenHolderTable s)"
    using handleTransfer_table [of ev s] by blast
  show ?thesis
  proof (cases "transfer_from ev = ZERO_ADDRESS")
    case True
    then show ?thesis
      by (simp add: tbl tableSum_storeSet [where f = f, OF tb assms(1)] ti balance_as_stored)
  next
    case False
    with assms(2) have ne: "transfer_to ev \<noteq> transfer_from ev" by simp
    show ?thesis
      using False ne
      by (simp add: tbl tableSum_storeSet [where f = f, OF tb assms(1)] tableSum_storeSet [where f = f, OF fb assms(1)]
          storedBigInt_storeSet [OF fb] ti fi balance_as_stored)
  qed
qed

lemma zeroCrossing_positive:
  "0 \<le> p \<Longrightarrow> 0 \<le> n \<Longrightarrow>
   zeroCrossing p n = (if 0 < n then 1 else 0) - (if 0 < p then 1 else 0)"
  by (simp add: zeroCrossing_def)

lemma holdersWithBalance_tableSum:
  "int (holdersWithBalance s) =
     tableSum (\<lambda>b. if 0 < b then 1 else 0) ''tokenBalanceRaw'' (tokenHolderTable s)"
  by (simp add: holdersWithBalance_def count_as_tableSum)

lemma totalBalance_tableSum:
  "totalBalance s = tableSum (\<lambda>b. b) ''tokenBalanceRaw'' (tokenHolderTable s)"
  by (simp add: totalBalance_def tableSum_def)

lemma handleTransfer_distinct:
  "distinct (map fst (tokenHolderTable s)) \<Longrightarrow>
   distinct (map fst (tokenHolderTable (handleTransfer ev s)))"
  using handleTransfer_table [of ev s] by (auto simp: distinct_storeSet)

lemma holdersCounted_step:
  assumes inv: "holdersCounted s"
    and v: "0 \<le> transfer_value ev"
    and c: "transfer_from ev = ZERO_ADDRESS \<or>
       (transfer_to ev \<noteq> transfer_from ev \<and>
        transfer_value ev \<le> tokenBalanceRaw (getTokenHolder s (transfer_from ev)))"
  shows "holdersCounted (handleTransfer ev s)"
proof -
  have nn: "\<And>a. 0 \<le> tokenBalanceRaw (getTokenHolder s a)"
    and cnt: "currentTokenHolders (getGovernance s) = int (holdersWithBalance s)"
    and d: "distinct (map fst (tokenHolderTable s))"
    using inv by (simp_all add: holdersCounted_def)
  have c': "transfer_from ev = ZERO_ADDRESS \<or> transfer_to ev \<noteq> transfer_from ev"
    using c by blast
  have f: "transfer_from ev \<noteq> ZERO_ADDRESS \<Longrightarrow>
      0 \<le> tokenBalanceRaw (getTokenHolder s (transfer_from ev)) - transfer_value ev"
    using c by simp
  have t: "0 \<le> tokenBalanceRaw (getTokenHolder s (transfer_to ev)) + transfer_value ev"
    using nn [of "transfer_to ev"] v by simp
  have "currentTokenHolders (getGovernance (handleTransfer ev s)) =
      int (holdersWithBalance (handleTransfer ev s))"
    unfolding handleTransfer_counter holdersWithBalance_tableSum
      handleTransfer_tableSum [of "\<lambda>b. if 0 < b then 1 else 0", OF _ c', simplified]
    using f t nn [of "transfer_from ev"] nn [of "transfer_to ev"] cnt
    by (simp add: zeroCrossing_positive holdersWithBalance_tableSum)
  moreover have "\<And>a. 0 \<le> tokenBalanceRaw (getTokenHolder (handleTransfer ev s) a)"
    using f t nn by (simp add: handleTransfer_balance)
  ultimately show ?thesis
    using handleTransfer_distinct [OF d] by (simp add: holdersCounted_def)
qed

lemma holdersCounted_applyTransfers:
  "holdersCounted s \<Longrightarrow> coveredTransfers s evs \<Longrightarrow> holdersCounted (applyTransfers s evs)"
  by (induction evs arbitrary: s) (simp_all add: holdersCounted_step)

lemma coveredTransfers_take:
  "coveredTransfers s evs \<Longrightarrow> coveredTransfers s (take n evs)"
proof (induction evs arbitrary: s n)
  case Nil
  then show ?case by simp
next
  case (Cons e es)
  then show ?case by (cases n) simp_all
qed

lemma holdersCounted_emptyState: "holdersCounted emptyState"
  by (simp add: holdersCounted_def holdersWithBalance_def tableEntities_def balance_as_stored
      storedBigInt_def)
     (simp add: emptyState_def getGovernance_def constructors storeGet_def getBigInt_setters BIGINT_ZERO_def)

lemma totalBalance_applyTransfers:
  "coveredTransfers s evs \<Longrightarrow>
   totalBalance (applyTransfers s evs) = totalBalance s + totalMinted evs"
proof (induction evs arbitrary: s)
  case Nil
  then show ?case by (simp add: totalMinted_def)
next
  case (Cons e es)
  then have c: "transfer_from e = ZERO_ADDRESS \<or> transfer_to e \<noteq> transfer_from e"
    and r: "coveredTransfers (handleTransfer e s) es"
    by auto
  have "totalBalance (handleTransfer e s) =
      totalBalance s + (if transfer_from e = ZERO_ADDRESS then transfer_value e else 0)"
    unfolding totalBalance_tableSum handleTransfer_tableSum [of "\<lambda>b. b", OF _ c, simplified]
    by simp
  with Cons.IH [OF r] show ?case
    by (simp add: totalMinted_def)
qed

section \<open>The delegate table and the delegate counter through a vote change\<close>

lemma handleDelegateVotesChanged_table:
  "\<exists>delegate.
     entity_id delegate = votes_delegate ev \<and>
     getField delegate ''delegatedVotesRaw'' = Some (VBigInt (votes_newBalance ev)) \<and>
     delegateTable (handleDelegateVotesChanged ev s) = storeSet delegate (delegateTable s)"
proof -
  let ?d = "setBigDecimal ''delegatedVotes'' (toDecimal (votes_newBalance ev))
      (setBigInt ''delegatedVotesRaw'' (votes_newBalance ev) (createDelegate (votes_delegate ev)))"
  have "delegateTable (handleDelegateVotesChanged ev s) = storeSet ?d (delegateTable s)"
    unfolding handleDelegateVotesChanged_def Let_def
    by (simp add: saveGovernance_def saveDelegate_def)
  moreover have "entity_id ?d = votes_delegate ev"
    by (simp add: setters entity_id_setField entity_id_constructors)
  moreover have "getField ?d ''delegatedVotesRaw'' = Some (VBigInt (votes_newBalance ev))"
    by (simp add: setters getField_setField)
  ultimately show ?thesis by blast
qed

lemma getBigInt_governance_extends:
  "extends g (getGovernance s) \<Longrightarrow>
   getBigInt (getGovernance (saveGovernance g s)) k = getBigInt g k"
  by (simp add: getBigInt_def getField_governance_extends)

lemma handleDelegateVotesChanged_counter:
  "currentDelegates (getGovernance (handleDelegateVotesChanged ev s)) =
     currentDelegates (getGovernance s) +
       (if votes_previousBalance ev = 0 \<and> 0 < votes_newBalance ev then 1 else 0) +
       (if votes_newBalance ev = 0 then - 1 else 0)"
proof -
  let ?g0 = "getGovernance s"
  let ?g1 = "if votes_previousBalance ev = BIGINT_ZERO \<and> votes_newBalance ev > BIGINT_ZERO
      then setBigInt ''currentDelegates'' (currentDelegates ?g0 + BIGINT_ONE) ?g0 else ?g0"
  let ?g2 = "if votes_newBalance ev = BIGINT_ZERO
      then setBigInt ''currentDelegates'' (currentDelegates ?g1 - BIGINT_ONE) ?g1 else ?g1"
  let ?g3 = "setBigInt ''delegatedVotesRaw''
      (delegatedVotesRaw ?g2 + (votes_newBalance ev - votes_previousBalance ev)) ?g2"
  let ?g4 = "setBigDecimal ''delegatedVotes'' (toDecimal (delegatedVotesRaw ?g3)) ?g3"
  have e: "extends ?g4 (getGovernance s)"
    by (simp add: extends_setters extends_refl)
  have h: "getGovernance (handleDelegateVotesChanged ev s) = getGovernance (saveGovernance ?g4 s)"
    unfolding handleDelegateVotesChanged_def Let_def
    by (simp add: getGovernance_def constructors saveGovernance_def saveDelegate_def)
  have "currentDelegates (getGovernance (handleDelegateVotesChanged ev s)) = currentDelegates ?g4"
    by (simp only: h getBigInt_governance_extends [OF e])
  then show ?thesis
    by (simp add: getBigInt_setters BIGINT_ZERO_def BIGINT_ONE_def)
qed

lemma handleDelegateVotesChanged_stored:
  "storedBigInt (delegateTable (handleDelegateVotesChanged ev s)) ''delegatedVotesRaw'' a =
     (if a = votes_delegate ev then votes_newBalance ev
      else storedBigInt (delegateTable s) ''delegatedVotesRaw'' a)"
  using handleDelegateVotesChanged_table [of ev s]
  by (auto simp: storedBigInt_storeSet)

lemma delegatesWithVotes_tableSum:
  "int (delegatesWithVotes s) =
     tableSum (\<lambda>b. if 0 < b then 1 else 0) ''delegatedVotesRaw'' (delegateTable s)"
  by (simp add: delegatesWithVotes_def count_as_tableSum)

lemma delegatesCounted_step:
  assumes inv: "delegatesCounted s"
    and p: "0 \<le> votes_previousBalance ev" and n: "0 \<le> votes_newBalance ev"
    and z: "0 < votes_previousBalance ev \<or> 0 < votes_newBalance ev"
    and c: "votes_previousBalance ev =
       storedBigInt (delegateTable s) ''delegatedVotesRaw'' (votes_delegate ev)"
  shows "delegatesCounted (handleDelegateVotesChanged ev s)"
proof -
  obtain delegate where
    di: "entity_id delegate = votes_delegate ev" and
    db: "getField delegate ''delegatedVotesRaw'' = Some (VBigInt (votes_newBalance ev))" and
    tbl: "delegateTable (handleDelegateVotesChanged ev s) = storeSet delegate (delegateTable s)"
    using handleDelegateVotesChanged_table [of ev s] by blast
  have cnt: "currentDelegates (getGovernance s) = int (delegatesWithVotes s)"
    and d: "distinct (map fst (delegateTable s))"
    and nn: "\<And>a. 0 \<le> storedBigInt (delegateTable s) ''delegatedVotesRaw'' a"
    using inv by (simp_all add: delegatesCounted_def)
  have "currentDelegates (getGovernance (handleDelegateVotesChanged ev s)) =
      int (delegatesWithVotes (handleDelegateVotesChanged ev s))"
    unfolding handleDelegateVotesChanged_counter delegatesWithVotes_tableSum tbl
      tableSum_storeSet [where f = "\<lambda>b. if 0 < b then 1 else 0", OF db, simplified] di
    using p n z c cnt by (auto simp: delegatesWithVotes_tableSum)
  moreover have "\<And>a. 0 \<le> storedBigInt (delegateTable (handleDelegateVotesChanged ev s))
      ''delegatedVotesRaw'' a"
    using nn n by (simp add: handleDelegateVotesChanged_stored)
  moreover have "distinct (map fst (delegateTable (handleDelegateVotesChanged ev s)))"
    using d by (simp add: tbl distinct_storeSet)
  ultimately show ?thesis
    by (simp add: delegatesCounted_def)
qed

lemma delegatesCounted_applyVotesChanged:
  "delegatesCounted s \<Longrightarrow> consistentVotesChanged s evs \<Longrightarrow>
   delegatesCounted (applyVotesChanged s evs)"
proof (induction evs arbitrary: s)
  case Nil
  then show ?case by simp
next
  case (Cons e es)
  from Cons.prems(2) have p: "0 \<le> votes_previousBalance e" and n: "0 \<le> votes_newBalance e"
    and z: "0 < votes_previousBalance e \<or> 0 < votes_newBalance e"
    and c: "votes_previousBalance e =
       storedBigInt (delegateTable s) ''delegatedVotesRaw'' (votes_delegate e)"
    and r: "consistentVotesChanged (handleDelegateVotesChanged e s) es"
    by auto
  have "delegatesCounted (handleDelegateVotesChanged e s)"
    using Cons.prems(1) p n z c by (rule delegatesCounted_step)
  with r show ?case
    by (simp add: Cons.IH)
qed

lemma consistentVotesChanged_take:
  "consistentVotesChanged s evs \<Longrightarrow> consistentVotesChanged s (take n evs)"
proof (induction evs arbitrary: s n)
  case Nil
  then show ?case by simp
next
  case (Cons e es)
  then show ?case by (cases n) auto
qed

lemma delegatesCounted_emptyState: "delegatesCounted emptyState"
  by (simp add: delegatesCounted_def delegatesWithVotes_def tableEntities_def storedBigInt_def)
     (simp add: emptyState_def getGovernance_def constructors storeGet_def getBigInt_setters BIGINT_ZERO_def)

text \<open>An event that reports a move from zero to zero decrements the counter: the second test
  of \<^verbatim>\<open>handleDelegateVotesChanged\<close> (line 249) does not look at the previous balance, unlike
  the tests of \<^verbatim>\<open>handleTransfer\<close>.\<close>

lemma votes_zero_to_zero_decrements:
  "currentDelegates (getGovernance (applyVotesChanged emptyState [exampleVotesZero])) = - 1 \<and>
   delegatesWithVotes (applyVotesChanged emptyState [exampleVotesZero]) = 0 \<and>
   zeroCrossing (votes_previousBalance exampleVotesZero) (votes_newBalance exampleVotesZero) = 0"
  by code_simp

section \<open>Sequences of events through the dispatch\<close>

lemma processEvents_transfers:
  "processEvents (map EvTransfer evs) s = Inr (applyTransfers s evs)"
  by (induction evs arbitrary: s) simp_all

lemma processEvents_votesChanged:
  "processEvents (map EvDelegateVotesChanged evs) s = Inr (applyVotesChanged s evs)"
  by (induction evs arbitrary: s) simp_all

section \<open>The claims\<close>

text \<open>
  C1, as the code has it. For every sequence of \<^verbatim>\<open>Transfer\<close> events with non-negative
  values, applied in order from the empty store, in which every transfer from a non-zero
  address goes to another address and is covered by the sender's balance, after each event
  (after every prefix of the sequence) \<^verbatim>\<open>Governance.currentTokenHolders\<close> is the number of
  TokenHolder entities whose \<^verbatim>\<open>tokenBalanceRaw\<close> is strictly positive; the table holds one
  entity per id.
\<close>

theorem currentTokenHolders_counts_covered:
  assumes "coveredTransfers emptyState evs"
  shows "currentTokenHolders (getGovernance (applyTransfers emptyState (take n evs))) =
           int (holdersWithBalance (applyTransfers emptyState (take n evs))) \<and>
         distinct (map fst (tokenHolderTable (applyTransfers emptyState (take n evs))))"
  using holdersCounted_applyTransfers [OF holdersCounted_emptyState
      coveredTransfers_take [OF assms, of n]]
  by (simp add: holdersCounted_def)

theorem currentTokenHolders_counts_covered_witness:
  "coveredTransfers emptyState [exampleMint, exampleTransfer] \<and>
   currentTokenHolders (getGovernance (applyTransfers emptyState [exampleMint, exampleTransfer]))
     = 1 \<and>
   holdersWithBalance (applyTransfers emptyState [exampleMint, exampleTransfer]) = 1"
proof -
  have c: "coveredTransfers emptyState [exampleMint, exampleTransfer]"
    by code_simp
  have h: "holdersWithBalance (applyTransfers emptyState [exampleMint, exampleTransfer]) = 1"
    by code_simp
  show ?thesis
    using currentTokenHolders_counts_covered [OF c, of 2] c h by simp
qed

text \<open>
  C1 as stated fails: after a mint of 100 to one holder and a transfer of 150 from it to a
  second holder, the first holder's balance is negative, one holder has a positive balance,
  and the counter is 2.
\<close>

theorem currentTokenHolders_miscounts_overdraft:
  "currentTokenHolders (getGovernance (applyTransfers emptyState [exampleMint, exampleOverdraft]))
     = 2 \<and>
   holdersWithBalance (applyTransfers emptyState [exampleMint, exampleOverdraft]) = 1"
  by code_simp

text \<open>
  C2, as the code has it. For every sequence of \<^verbatim>\<open>DelegateVotesChanged\<close> events, applied in
  order from the empty store, whose balances are non-negative and not both zero and in
  which every event's previous balance is the \<^verbatim>\<open>delegatedVotesRaw\<close> the store holds for the
  delegate (zero when it holds none), after each event \<^verbatim>\<open>Governance.currentDelegates\<close> is
  the number of Delegate entities whose \<^verbatim>\<open>delegatedVotesRaw\<close> is strictly positive; and on
  every event with such balances, in any state, \<^verbatim>\<open>handleDelegateVotesChanged\<close> changes the
  counter by the zero-crossing rule applied to the event's previous and new balance.
\<close>

theorem currentDelegates_counts_consistent:
  assumes "consistentVotesChanged emptyState evs"
    and "0 \<le> votes_previousBalance ev" and "0 \<le> votes_newBalance ev"
    and "0 < votes_previousBalance ev \<or> 0 < votes_newBalance ev"
  shows "currentDelegates (getGovernance (applyVotesChanged emptyState (take n evs))) =
           int (delegatesWithVotes (applyVotesChanged emptyState (take n evs))) \<and>
         distinct (map fst (delegateTable (applyVotesChanged emptyState (take n evs)))) \<and>
         currentDelegates (getGovernance (handleDelegateVotesChanged ev s)) =
           currentDelegates (getGovernance s) +
             zeroCrossing (votes_previousBalance ev) (votes_newBalance ev)"
proof -
  have "delegatesCounted (applyVotesChanged emptyState (take n evs))"
    using delegatesCounted_applyVotesChanged [OF delegatesCounted_emptyState
        consistentVotesChanged_take [OF assms(1), of n]] .
  moreover have "currentDelegates (getGovernance (handleDelegateVotesChanged ev s)) =
      currentDelegates (getGovernance s) +
        zeroCrossing (votes_previousBalance ev) (votes_newBalance ev)"
    using assms(2-4) by (auto simp: handleDelegateVotesChanged_counter zeroCrossing_def)
  ultimately show ?thesis
    by (simp add: delegatesCounted_def)
qed

theorem currentDelegates_counts_consistent_witness:
  "consistentVotesChanged emptyState [exampleVotesChanged, exampleVotesCleared] \<and>
   currentDelegates (getGovernance (applyVotesChanged emptyState [exampleVotesChanged])) = 1 \<and>
   delegatesWithVotes (applyVotesChanged emptyState [exampleVotesChanged]) = 1 \<and>
   currentDelegates (getGovernance (handleDelegateVotesChanged exampleVotesCleared
     (handleDelegateVotesChanged exampleVotesChanged emptyState))) = 0"
proof -
  have c: "consistentVotesChanged emptyState [exampleVotesChanged, exampleVotesCleared]"
    by code_simp
  have h: "delegatesWithVotes (applyVotesChanged emptyState [exampleVotesChanged]) = 1"
    "currentDelegates (getGovernance (handleDelegateVotesChanged exampleVotesChanged emptyState))
       = 1"
    by code_simp+
  have b: "0 \<le> votes_previousBalance exampleVotesCleared"
    "0 \<le> votes_newBalance exampleVotesCleared"
    "0 < votes_previousBalance exampleVotesCleared \<or> 0 < votes_newBalance exampleVotesCleared"
    by (simp_all add: exampleVotesCleared_def)
  have z: "zeroCrossing (votes_previousBalance exampleVotesCleared)
      (votes_newBalance exampleVotesCleared) = - 1"
    by (simp add: zeroCrossing_def exampleVotesCleared_def)
  note t = currentDelegates_counts_consistent [OF c b, of 1
      "handleDelegateVotesChanged exampleVotesChanged emptyState"]
  have q: "currentDelegates (getGovernance (applyVotesChanged emptyState [exampleVotesChanged]))
      = 1"
    using t h by simp
  have r: "currentDelegates (getGovernance (handleDelegateVotesChanged exampleVotesCleared
     (handleDelegateVotesChanged exampleVotesChanged emptyState))) = 0"
    using t h z by simp
  show ?thesis
    using c h(1) q r by blast
qed

text \<open>
  C2 as stated fails: the handler takes the previous balance from the event, not from the
  store. After two events that each report a move of the same delegate from 0 to 5, the
  counter is 2 and one delegate has positive delegated votes.
\<close>

theorem currentDelegates_miscounts_repeated_event:
  "currentDelegates
     (getGovernance (applyVotesChanged emptyState [exampleVotesChanged, exampleVotesChanged])) = 2 \<and>
   delegatesWithVotes (applyVotesChanged emptyState [exampleVotesChanged, exampleVotesChanged]) = 1"
  by code_simp

text \<open>
  C3 at a self-transfer. The values are non-negative and no balance is driven negative
  (nothing is reported to the log), yet after a mint of 100 and a transfer of 100 from the
  holder to itself the balances sum to 200 while 100 was minted.
\<close>

theorem self_transfer_breaks_supply:
  "0 \<le> transfer_value exampleMint \<and> 0 \<le> transfer_value exampleSelfTransfer \<and>
   tokenBalanceRaw (getTokenHolder (applyTransfers emptyState [exampleMint]) ''0xa1'') = 100 \<and>
   logs (applyTransfers emptyState [exampleMint, exampleSelfTransfer]) = [] \<and>
   totalBalance (applyTransfers emptyState [exampleMint, exampleSelfTransfer]) = 200 \<and>
   totalMinted [exampleMint, exampleSelfTransfer] = 100"
  by code_simp

text \<open>
  C4, as the code has it. For a \<^verbatim>\<open>Transfer\<close> from a non-zero address to another address
  whose value exceeds the from-holder's \<^verbatim>\<open>tokenBalanceRaw\<close>, \<^verbatim>\<open>handleTransfer\<close> leaves the
  from-holder in the store with the exact negative difference as its balance, unclamped; it
  reports one "Negative balance" entry with the holder and that balance to the log; and it
  returns, so the events after it are processed.
\<close>

theorem overdraft_transfer:
  assumes "transfer_from ev \<noteq> ZERO_ADDRESS"
    and "tokenBalanceRaw (getTokenHolder s (transfer_from ev)) < transfer_value ev"
    and "transfer_to ev \<noteq> transfer_from ev"
  shows "tokenBalanceRaw (getTokenHolder (handleTransfer ev s) (transfer_from ev))
           = tokenBalanceRaw (getTokenHolder s (transfer_from ev)) - transfer_value ev \<and>
         tokenBalanceRaw (getTokenHolder (handleTransfer ev s) (transfer_from ev)) < 0 \<and>
         logs (handleTransfer ev s) = logs s @
           [LogError ''Negative balance on holder {} with balance {}''
              [transfer_from ev,
               bigIntToString (tokenBalanceRaw (getTokenHolder s (transfer_from ev))
                 - transfer_value ev)]] \<and>
         processEvents (EvTransfer ev # rest) s = processEvents rest (handleTransfer ev s)"
proof -
  have l: "logs (handleTransfer ev s) =
      logs (snd (transferDebit ev (getTokenHolder s (transfer_from ev)) (getGovernance s) s))"
    by (simp add: handleTransfer_def Let_def split_def transferCredit_logs)
  show ?thesis
    using assms
    by (simp add: l transferDebit_logs handleTransfer_balance getTokenHolder_id)
qed

theorem overdraft_transfer_witness:
  "tokenBalanceRaw (getTokenHolder
     (handleTransfer exampleOverdraft (handleTransfer exampleMint emptyState)) ''0xa1'') = - 50 \<and>
   logs (handleTransfer exampleOverdraft (handleTransfer exampleMint emptyState)) =
     [LogError ''Negative balance on holder {} with balance {}'' [''0xa1'', ''-50'']] \<and>
   processEvents [EvTransfer exampleMint, EvTransfer exampleOverdraft, EvTransfer exampleMint]
     emptyState =
     Inr (handleTransfer exampleMint
       (handleTransfer exampleOverdraft (handleTransfer exampleMint emptyState)))"
proof -
  have a: "transfer_from exampleOverdraft \<noteq> ZERO_ADDRESS"
    by (simp add: exampleOverdraft_def ZERO_ADDRESS_def)
  have b: "tokenBalanceRaw (getTokenHolder (handleTransfer exampleMint emptyState)
      (transfer_from exampleOverdraft)) < transfer_value exampleOverdraft"
    by (simp add: exampleOverdraft_def after_exampleMint)
  have d: "transfer_to exampleOverdraft \<noteq> transfer_from exampleOverdraft"
    by (simp add: exampleOverdraft_def)
  have c: "bigIntToString (- 50) = ''-50''"
    by (simp add: bigIntToString_def natToString.simps digitChar_def)
  show ?thesis
    using overdraft_transfer [OF a b d, of "[EvTransfer exampleMint]"]
    by (simp add: exampleOverdraft_def after_exampleMint c)
qed

text \<open>
  C4 as stated fails when the holder transfers to itself: with a balance of 100 and a
  transfer of 150 from the holder to the holder, the fault is reported with -50, but the
  balance the handler leaves in the store is 250, not -50.
\<close>

theorem self_overdraft_not_negative_difference:
  "tokenBalanceRaw (getTokenHolder (handleTransfer exampleMint emptyState) ''0xa1'') = 100 \<and>
   transfer_value exampleSelfOverdraft = 150 \<and>
   logs (handleTransfer exampleSelfOverdraft (handleTransfer exampleMint emptyState)) =
     [LogError ''Negative balance on holder {} with balance {}'' [''0xa1'', ''-50'']] \<and>
   tokenBalanceRaw (getTokenHolder
     (handleTransfer exampleSelfOverdraft (handleTransfer exampleMint emptyState)) ''0xa1'') = 250"
  by code_simp

text \<open>
  C5, as the code has it. For a \<^verbatim>\<open>ProposalCreated\<close> event whose proposer has no Delegate
  entity in the store, \<^verbatim>\<open>handleProposalCreated\<close> completes without aborting, and the
  proposer linkage of the proposal is the proposer's address, the id of the Delegate that
  the get-or-create helper returns; it is not null.
\<close>

theorem proposal_created_absent_proposer:
  assumes "storeGet (delegateTable s) (created_proposer ev) = None"
  shows "\<exists>s'. handleProposalCreated ev s = Inr s' \<and>
           proposalProposer (getProposal s' (bigIntToString (created_proposalId ev)))
             = Some (created_proposer ev)"
proof -
  obtain s' p where r: "handleProposalCreated ev s = Inr s'"
    and d: "getDelegate s (created_proposer ev) = Some p"
    and f: "getField (getProposal s' (bigIntToString (created_proposalId ev))) ''proposer''
       = Some (VString (entity_id p))"
    using created_proposal [of ev s] by blast
  have "entity_id p = created_proposer ev"
    using d assms
    by (auto simp: getDelegate_def entity_id_constructors)
  with r f show ?thesis
    by (simp add: getNullableString_def)
qed

theorem proposal_created_absent_proposer_witness:
  "storeGet (delegateTable emptyState) ''0xa1'' = None \<and>
   (\<exists>s'. handleProposalCreated exampleCreated emptyState = Inr s' \<and>
         proposalProposer (getProposal s' ''1'') = Some ''0xa1'')"
proof -
  have a: "storeGet (delegateTable emptyState) (created_proposer exampleCreated) = None"
    by (simp add: emptyState_def storeGet_def)
  show ?thesis
    using proposal_created_absent_proposer [OF a] a
    by (simp add: exampleCreated_def bigIntToString_1)
qed

text \<open>
  C5 as stated fails: on the empty store the handler completes, but it reports no fault
  (the log stays empty) and the proposer linkage is set.
\<close>

theorem proposal_created_absent_proposer_no_fault_logged:
  "storeGet (delegateTable emptyState) (created_proposer exampleCreated) = None \<and>
   \<not> isl (handleProposalCreated exampleCreated emptyState) \<and>
   logs (projr (handleProposalCreated exampleCreated emptyState)) = [] \<and>
   proposalProposer (getProposal (projr (handleProposalCreated exampleCreated emptyState)) ''1'')
     = Some ''0xa1''"
  by code_simp

text \<open>
  C6. For a \<^verbatim>\<open>VoteCast\<close> event whose support code is none of 0, 1 and 2,
  \<^verbatim>\<open>handleVoteCast\<close> leaves \<^verbatim>\<open>againstVotes\<close>, \<^verbatim>\<open>forVotes\<close> and \<^verbatim>\<open>abstainVotes\<close> of the
  proposal as they were, the handler returns normally, and the Vote record is in the store
  under the id voter-proposal with the literal support code as its choice.
\<close>

theorem votecast_unrecognized_support:
  assumes "vote_support ev \<noteq> 0" "vote_support ev \<noteq> 1" "vote_support ev \<noteq> 2"
  shows "againstVotes (getProposal (handleVoteCast ev s) (bigIntToString (vote_proposalId ev)))
           = againstVotes (getProposal s (bigIntToString (vote_proposalId ev))) \<and>
         forVotes (getProposal (handleVoteCast ev s) (bigIntToString (vote_proposalId ev)))
           = forVotes (getProposal s (bigIntToString (vote_proposalId ev))) \<and>
         abstainVotes (getProposal (handleVoteCast ev s) (bigIntToString (vote_proposalId ev)))
           = abstainVotes (getProposal s (bigIntToString (vote_proposalId ev))) \<and>
         (\<exists>vote. storeGet (voteTable (handleVoteCast ev s))
                    (vote_voter ev @ ''-'' @ bigIntToString (vote_proposalId ev)) = Some vote \<and>
                  choice vote = natToString (unat (vote_support ev))) \<and>
         handleEvent (EvVoteCast ev) s = Inr (handleVoteCast ev s)"
proof -
  let ?pid = "bigIntToString (vote_proposalId ev)"
  have t: "\<And>k. k \<noteq> ''state'' \<Longrightarrow>
      getField (getProposal (handleVoteCast ev s) ?pid) k = getField (getProposal s ?pid) k"
    using assms by (simp add: votecast_proposal Let_def setters getField_setField)
  have tallies:
    "againstVotes (getProposal (handleVoteCast ev s) ?pid) = againstVotes (getProposal s ?pid)"
    "forVotes (getProposal (handleVoteCast ev s) ?pid) = forVotes (getProposal s ?pid)"
    "abstainVotes (getProposal (handleVoteCast ev s) ?pid) = abstainVotes (getProposal s ?pid)"
    using t [of "''againstVotes''"] t [of "''forVotes''"] t [of "''abstainVotes''"]
    by (simp_all add: getBigInt_def)
  let ?v = "setString ''choice'' (getVoteChoiceByValue (vote_support ev))
       (setString ''reason'' (vote_reason ev)
         (setBigInt ''weight'' (vote_weight ev)
           (setString ''voter'' (vote_voter ev)
             (setString ''proposal'' ?pid (createVote (vote_voter ev @ ''-'' @ ?pid))))))"
  have i: "entity_id ?v = vote_voter ev @ ''-'' @ ?pid"
    by (simp add: setters entity_id_setField entity_id_constructors)
  obtain vote where v: "storeGet (storeSet ?v (voteTable s)) (entity_id ?v) = Some vote"
    and a: "\<And>k. getField vote k =
        (case getField ?v k of
           Some v \<Rightarrow> Some v
         | None \<Rightarrow> (case storeGet (voteTable s) (entity_id ?v) of
                      None \<Rightarrow> None | Some old \<Rightarrow> getField old k))"
    using storeGet_storeSet_same [of ?v "voteTable s"] by blast
  have f: "getField vote ''choice'' = Some (VString (getVoteChoiceByValue (vote_support ev)))"
    unfolding a by (simp add: setters getField_setField)
  have "choice vote = natToString (unat (vote_support ev))"
    using f assms by (simp add: getString_def getVoteChoiceByValue_def)
  with v i have "\<exists>vote. storeGet (voteTable (handleVoteCast ev s)) (vote_voter ev @ ''-'' @ ?pid)
       = Some vote \<and> choice vote = natToString (unat (vote_support ev))"
    by (auto simp: votecast_tables(1))
  with tallies show ?thesis by simp
qed

theorem votecast_unrecognized_support_witness:
  "againstVotes (getProposal (handleVoteCast exampleVote emptyState) ''1'') = 0 \<and>
   forVotes (getProposal (handleVoteCast exampleVote emptyState) ''1'') = 0 \<and>
   abstainVotes (getProposal (handleVoteCast exampleVote emptyState) ''1'') = 0 \<and>
   map_option choice (storeGet (voteTable (handleVoteCast exampleVote emptyState)) ''0xa1-1'')
     = Some ''7''"
proof -
  have s: "vote_support exampleVote = 7" "vote_proposalId exampleVote = 1"
    "vote_voter exampleVote = ''0xa1''"
    by (simp_all add: exampleVote_def)
  have n: "natToString 7 = ''7''"
    by (simp add: natToString.simps digitChar_def)
  show ?thesis
    using votecast_unrecognized_support [of exampleVote emptyState]
    by (auto simp: s n bigIntToString_1 getProposal_emptyState)
qed



text \<open>
  C8. Applying \<^verbatim>\<open>ProposalCreated\<close>, then \<^verbatim>\<open>ProposalQueued\<close>, then \<^verbatim>\<open>ProposalExecuted\<close> for
  one proposal id, to any state of the store (in particular one where the id is fresh),
  completes and leaves the proposal in state Executed with \<^verbatim>\<open>executionETA\<close> null; the
  governance counter \<^verbatim>\<open>proposalsQueued\<close> is what it was before the three events and
  \<^verbatim>\<open>proposalsExecuted\<close> is one more.
\<close>

theorem proposal_created_queued_executed:
  assumes "created_proposalId cev = i" "queued_proposalId qev = i" "executed_proposalId xev = i"
  shows "\<exists>s'. processEvents
            [EvProposalCreated cev, EvProposalQueued qev, EvProposalExecuted xev] s = Inr s' \<and>
          proposalState (getProposal s' (bigIntToString i)) = PROPOSAL_STATE_EXECUTED \<and>
          executionETA (getProposal s' (bigIntToString i)) = None \<and>
          proposalsQueued (getGovernance s') = proposalsQueued (getGovernance s) \<and>
          proposalsExecuted (getGovernance s') = proposalsExecuted (getGovernance s) + 1"
proof -
  obtain s1 where c: "handleProposalCreated cev s = Inr s1"
    and g1: "\<And>k. getField (getGovernance s1) k =
       (if k = ''proposals'' then Some (VBigInt (proposals (getGovernance s) + 1))
        else getField (getGovernance s) k)"
    using created_governance [of cev s] by blast
  define s2 where "s2 = handleProposalQueued qev s1"
  define s3 where "s3 = handleProposalExecuted xev s2"
  have run: "processEvents
      [EvProposalCreated cev, EvProposalQueued qev, EvProposalExecuted xev] s = Inr s3"
    by (simp add: c s2_def s3_def)
  have q1: "proposalsQueued (getGovernance s1) = proposalsQueued (getGovernance s)"
    and x1: "proposalsExecuted (getGovernance s1) = proposalsExecuted (getGovernance s)"
    by (simp_all add: getBigInt_def g1)
  have q2: "proposalsQueued (getGovernance s2) = proposalsQueued (getGovernance s) + 1"
    and x2: "proposalsExecuted (getGovernance s2) = proposalsExecuted (getGovernance s)"
    unfolding s2_def using q1 x1 by (simp_all add: getBigInt_def queued_governance)
  have q3: "proposalsQueued (getGovernance s3) = proposalsQueued (getGovernance s)"
    and x3: "proposalsExecuted (getGovernance s3) = proposalsExecuted (getGovernance s) + 1"
    unfolding s3_def using q2 x2 by (simp_all add: getBigInt_def executed_governance)
  have p: "proposalState (getProposal s3 (bigIntToString i)) = PROPOSAL_STATE_EXECUTED"
    "executionETA (getProposal s3 (bigIntToString i)) = None"
    unfolding s3_def using executed_proposal [of xev s2] assms(3)
    by (simp_all add: getString_def getNullableBigInt_def)
  show ?thesis using run q3 x3 p by blast
qed

theorem proposal_created_queued_executed_witness:
  "\<exists>s'. processEvents
      [EvProposalCreated exampleCreated, EvProposalQueued exampleQueued,
       EvProposalExecuted exampleExecuted] emptyState = Inr s' \<and>
     proposalState (getProposal s' ''1'') = ''Executed'' \<and>
     executionETA (getProposal s' ''1'') = None \<and>
     proposalsQueued (getGovernance s') = 0 \<and>
     proposalsExecuted (getGovernance s') = 1"
proof -
  have e: "bigIntToString 1 = ''1''"
    by (simp add: bigIntToString_def natToString.simps digitChar_def)
  have g: "proposalsQueued (getGovernance emptyState) = 0"
    "proposalsExecuted (getGovernance emptyState) = 0"
    by (simp_all add: getGovernance_def constructors emptyState_def storeGet_def setters getBigInt_setField
        BIGINT_ZERO_def getBigInt_bareEntity)
  show ?thesis
    using proposal_created_queued_executed [of exampleCreated 1 exampleQueued exampleExecuted emptyState]
    by (simp add: exampleCreated_def exampleQueued_def exampleExecuted_def e g
        PROPOSAL_STATE_EXECUTED_def)
qed

text \<open>
  C9. For a \<^verbatim>\<open>Transfer\<close> whose from and to addresses are equal and not the zero address,
  the debit block saves the holder with its balance less the value, and the credit block,
  working on the copy that was loaded before the debit, then saves the previous balance
  plus the value over it: after \<^verbatim>\<open>handleTransfer\<close> the persisted \<^verbatim>\<open>tokenBalanceRaw\<close> of the
  holder is its previous value increased by the value of the event.
\<close>

theorem self_transfer_credit_overwrites_debit:
  assumes "transfer_to ev = transfer_from ev" "transfer_from ev \<noteq> ZERO_ADDRESS"
  shows "tokenBalanceRaw (getTokenHolder
            (snd (transferDebit ev (getTokenHolder s (transfer_from ev)) (getGovernance s) s))
            (transfer_from ev))
           = tokenBalanceRaw (getTokenHolder s (transfer_from ev)) - transfer_value ev \<and>
         tokenBalanceRaw (getTokenHolder (handleTransfer ev s) (transfer_from ev))
           = tokenBalanceRaw (getTokenHolder s (transfer_from ev)) + transfer_value ev"
  using assms by (simp add: transferDebit_balance handleTransfer_balance getTokenHolder_id)

theorem self_transfer_credit_overwrites_debit_witness:
  "tokenBalanceRaw (getTokenHolder
     (handleTransfer exampleSelfTransfer (handleTransfer exampleMint emptyState)) ''0xa1'') = 200"
proof -
  have a: "transfer_to exampleSelfTransfer = transfer_from exampleSelfTransfer"
    "transfer_from exampleSelfTransfer \<noteq> ZERO_ADDRESS"
    by (simp_all add: exampleSelfTransfer_def ZERO_ADDRESS_def)
  show ?thesis
    using self_transfer_credit_overwrites_debit [OF a, of "handleTransfer exampleMint emptyState"]
    by (simp add: exampleSelfTransfer_def after_exampleMint)
qed

text \<open>
  C10. \<^verbatim>\<open>handleDeposit\<close> forwards the event, the pool id and the amount unchanged to the
  reward accounting; \<^verbatim>\<open>handleWithdraw\<close> and \<^verbatim>\<open>handleEmergencyWithdraw\<close> forward the same
  pool id with the amount negated. On events with the same context, pool id and amount the
  two withdrawing handlers make the same call, and it is the call of \<^verbatim>\<open>handleDeposit\<close> on
  the negated amount: the handlers differ in the sign only.
\<close>

theorem reward_handlers_sign_selection:
  "handleDeposit handleReward
     \<lparr>blockNumber = b, blockTimestamp = t, transactionHash = h,
      deposit_user = u, deposit_pid = pid, deposit_amount = amount\<rparr>
     = handleReward \<lparr>blockNumber = b, blockTimestamp = t, transactionHash = h\<rparr> pid amount
   \<and> handleWithdraw handleReward
     \<lparr>blockNumber = b, blockTimestamp = t, transactionHash = h,
      withdraw_user = u, withdraw_pid = pid, withdraw_amount = amount\<rparr>
     = handleReward \<lparr>blockNumber = b, blockTimestamp = t, transactionHash = h\<rparr> pid (- amount)
   \<and> handleEmergencyWithdraw handleReward
     \<lparr>blockNumber = b, blockTimestamp = t, transactionHash = h,
      emergency_user = u, emergency_pid = pid, emergency_amount = amount\<rparr>
     = handleReward \<lparr>blockNumber = b, blockTimestamp = t, transactionHash = h\<rparr> pid (- amount)
   \<and> handleWithdraw handleReward
     \<lparr>blockNumber = b, blockTimestamp = t, transactionHash = h,
      withdraw_user = u, withdraw_pid = pid, withdraw_amount = amount\<rparr>
     = handleDeposit handleReward
     \<lparr>blockNumber = b, blockTimestamp = t, transactionHash = h,
      deposit_user = u, deposit_pid = pid, deposit_amount = - amount\<rparr>"
  by (simp add: handleDeposit_def handleWithdraw_def handleEmergencyWithdraw_def
      BIGINT_NEG_ONE_def Deposit.defs Withdraw.defs
      EmergencyWithdraw.defs EthereumEvent.defs)

end
